theory Spec2Isabelle
  imports Main
begin

section \<open>Python values\<close>

text \<open>
  A Python \<^verbatim>\<open>str\<close> is a sequence of Unicode code points, and \<^verbatim>\<open>len\<close> and slicing count
  code points. It is modelled as a list of natural numbers (the code points); a literal of
  the source is written \<open>py ''...''\<close>.
\<close>

type_synonym pystr = "nat list"

abbreviation (input) ord :: "char \<Rightarrow> nat" where
  "ord c \<equiv> of_char c"

abbreviation (input) py :: "string \<Rightarrow> pystr" where
  "py s \<equiv> map of_char s"

text \<open>
  The values that \<^verbatim>\<open>json.loads\<close> produces and that the result dictionaries of
  \<^verbatim>\<open>AIProcessor\<close> hold. A \<^verbatim>\<open>dict\<close> keeps insertion order and has unique keys: an
  association list. A \<^verbatim>\<open>float\<close> is kept as the literal that denotes it; the code never
  computes with one.
\<close>

datatype pyval =
    PNone
  | PBool bool
  | PInt int
  | PFloat pystr
  | PStr pystr
  | PList "pyval list"
  | PDict "(pystr \<times> pyval) list"

type_synonym pydict = "(pystr \<times> pyval) list"

text \<open>
  Exceptions, all instances of \<^verbatim>\<open>Exception\<close>, each with the text \<^verbatim>\<open>str(e)\<close> gives.
  \<open>OtherError\<close> stands for whatever else the model client raises (timeouts, transport
  errors, rejected requests, blocked responses).
\<close>

datatype pyexn =
    AttributeError pystr
  | TypeError pystr
  | ValueError pystr
  | RecursionError pystr
  | OtherError pystr

fun str_exn :: "pyexn \<Rightarrow> pystr" where
  "str_exn (AttributeError m) = m"
| "str_exn (TypeError m) = m"
| "str_exn (ValueError m) = m"
| "str_exn (RecursionError m) = m"
| "str_exn (OtherError m) = m"

definition bind :: "pyexn + 'a \<Rightarrow> ('a \<Rightarrow> pyexn + 'b) \<Rightarrow> pyexn + 'b" where
  "bind m f = (case m of Inl e \<Rightarrow> Inl e | Inr x \<Rightarrow> f x)"

text \<open>\<^verbatim>\<open>try: body  except Exception as e: handler\<close>\<close>

definition try_except :: "pyexn + 'a \<Rightarrow> (pyexn \<Rightarrow> pyexn + 'a) \<Rightarrow> pyexn + 'a" where
  "try_except body handler = (case body of Inl e \<Rightarrow> handler e | Inr x \<Rightarrow> Inr x)"

fun type_name :: "pyval \<Rightarrow> pystr" where
  "type_name PNone = py ''NoneType''"
| "type_name (PBool b) = py ''bool''"
| "type_name (PInt i) = py ''int''"
| "type_name (PFloat f) = py ''float''"
| "type_name (PStr s) = py ''str''"
| "type_name (PList xs) = py ''list''"
| "type_name (PDict d) = py ''dict''"

text \<open>A text between apostrophes, as Python's messages quote a type or attribute name.\<close>

definition quoted :: "pystr \<Rightarrow> pystr" where
  "quoted s = [39] @ s @ [39]"

text \<open>\<^verbatim>\<open>d.get(k, default)\<close> on a dict.\<close>

definition dict_get :: "pydict \<Rightarrow> pystr \<Rightarrow> pyval \<Rightarrow> pyval" where
  "dict_get d k dflt = (case map_of d k of Some v \<Rightarrow> v | None \<Rightarrow> dflt)"

text \<open>
  \<^verbatim>\<open>obj.get(k, default)\<close> on any value: only a dict has the method, every other type
  raises \<^verbatim>\<open>AttributeError\<close>.
\<close>

definition py_get :: "pyval \<Rightarrow> pystr \<Rightarrow> pyval \<Rightarrow> pyexn + pyval" where
  \<open>py_get obj k dflt =
     (case obj of
        PDict d \<Rightarrow> Inr (dict_get d k dflt)
      | _ \<Rightarrow> Inl (AttributeError
                 (quoted (type_name obj) @ py '' object has no attribute '' @ quoted (py ''get''))))\<close>

text \<open>\<^verbatim>\<open>len(obj)\<close>: defined on str, list and dict, \<^verbatim>\<open>TypeError\<close> otherwise.\<close>

definition py_len :: "pyval \<Rightarrow> pyexn + nat" where
  \<open>py_len obj =
     (case obj of
        PStr s \<Rightarrow> Inr (length s)
      | PList xs \<Rightarrow> Inr (length xs)
      | PDict d \<Rightarrow> Inr (length d)
      | _ \<Rightarrow> Inl (TypeError
                 (py ''object of type '' @ quoted (type_name obj) @ py '' has no len()'')))\<close>

text \<open>
  \<^verbatim>\<open>for r in obj\<close>: a list yields its elements, a str its characters as one-character
  strs, a dict its keys.
\<close>

definition py_iter :: "pyval \<Rightarrow> pyexn + pyval list" where
  \<open>py_iter obj =
     (case obj of
        PStr s \<Rightarrow> Inr (map (\<lambda>c. PStr [c]) s)
      | PList xs \<Rightarrow> Inr xs
      | PDict d \<Rightarrow> Inr (map (\<lambda>kv. PStr (fst kv)) d)
      | _ \<Rightarrow> Inl (TypeError
                 (quoted (type_name obj) @ py '' object is not iterable'')))\<close>

text \<open>
  What the interpreter provides at a call and this development does not compute:
  \<^verbatim>\<open>str(v)\<close>, as an f-string formats a value, and \<^verbatim>\<open>json.dumps(v, indent=2)\<close>, both total
  on the values above, whose text (the digits of a float among others) is not modelled;
  and the number of nested JSON objects and arrays that the recursion limit leaves room
  for, which depends on the depth of the call stack at the call.
\<close>

record pylib =
  str_of :: "pyval \<Rightarrow> pystr"
  json_dumps :: "pyval \<Rightarrow> pystr"
  recursion_room :: nat

section \<open>Decoding JSON\<close>

text \<open>
  \<^verbatim>\<open>json.loads\<close> of the standard library, on a str: the scanner of \<^verbatim>\<open>json.scanner\<close> and
  \<^verbatim>\<open>json.decoder\<close> with the default hooks and \<^verbatim>\<open>strict=True\<close>. Positions in the text are
  modelled by the text that remains. Decoding raises \<^verbatim>\<open>JSONDecodeError\<close> on a malformed text,
  \<^verbatim>\<open>ValueError\<close> on an integer literal of more than 4300 digits (the default limit of
  \<^verbatim>\<open>int\<close>) and \<^verbatim>\<open>RecursionError\<close> when objects and arrays nest deeper than the recursion limit
  leaves room for. The message of a \<^verbatim>\<open>JSONDecodeError\<close> is not modelled: the only caller
  catches the exception and never reads it.
\<close>

datatype loads_exn = JSONDecodeError | Raised pyexn

definition is_ws :: "nat \<Rightarrow> bool" where
  \<comment> \<open>\<^verbatim>\<open>WHITESPACE_STR = ' \t\n\r'\<close>\<close>
  "is_ws c \<longleftrightarrow> c = 32 \<or> c = 9 \<or> c = 10 \<or> c = 13"

definition skip_ws :: "pystr \<Rightarrow> pystr" where
  "skip_ws s = dropWhile is_ws s"

definition is_digit :: "nat \<Rightarrow> bool" where
  "is_digit c \<longleftrightarrow> 48 \<le> c \<and> c \<le> 57"

definition hex_value :: "nat \<Rightarrow> nat option" where
  "hex_value c =
     (if 48 \<le> c \<and> c \<le> 57 then Some (c - 48)
      else if 97 \<le> c \<and> c \<le> 102 then Some (c - 87)
      else if 65 \<le> c \<and> c \<le> 70 then Some (c - 55)
      else None)"

text \<open>\<^verbatim>\<open>_decode_uXXXX\<close>, given the text after the \<^verbatim>\<open>u\<close>: exactly four hexadecimal digits.\<close>

definition decode_uXXXX :: "pystr \<Rightarrow> nat option" where
  "decode_uXXXX s =
     (case map hex_value (take 4 s) of
        [Some a, Some b, Some c, Some d] \<Rightarrow> Some (((a * 16 + b) * 16 + c) * 16 + d)
      | _ \<Rightarrow> None)"

text \<open>The table \<^verbatim>\<open>BACKSLASH\<close> of the one-character escapes.\<close>

definition backslash :: "nat \<Rightarrow> nat option" where
  \<open>backslash esc =
     (if esc = ord CHR ''"'' then Some 34
      else if esc = 92 then Some 92
      else if esc = ord CHR ''/'' then Some 47
      else if esc = ord CHR ''b'' then Some 8
      else if esc = ord CHR ''f'' then Some 12
      else if esc = ord CHR ''n'' then Some 10
      else if esc = ord CHR ''r'' then Some 13
      else if esc = ord CHR ''t'' then Some 9
      else None)\<close>

definition append_char :: "nat \<Rightarrow> (pystr \<times> pystr) option \<Rightarrow> (pystr \<times> pystr) option" where
  "append_char ch r = map_option (\<lambda>p. (ch # fst p, snd p)) r"

text \<open>
  \<^verbatim>\<open>py_scanstring\<close>, given the text after the opening quote: the decoded string and the text
  after the closing quote. Code point 92 is the backslash. A raw control character, an
  unknown escape and a string that does not end are errors. A high surrogate followed by
  an escaped low surrogate is one character.
\<close>

fun scanstring :: "pystr \<Rightarrow> (pystr \<times> pystr) option" where
  \<open>scanstring [] = None\<close>
| \<open>scanstring (c # cs) =
     (if c = ord CHR ''"'' then Some ([], cs)
      else if c = 92 then
        (case cs of
           [] \<Rightarrow> None
         | esc # es \<Rightarrow>
             if esc \<noteq> ord CHR ''u'' then
               (case backslash esc of
                  None \<Rightarrow> None
                | Some ch \<Rightarrow> append_char ch (scanstring es))
             else
               (case decode_uXXXX es of
                  None \<Rightarrow> None
                | Some uni \<Rightarrow>
                    if 0xd800 \<le> uni \<and> uni \<le> 0xdbff \<and> take 2 (drop 4 es) = [92, ord CHR ''u''] then
                      (case decode_uXXXX (drop 6 es) of
                         None \<Rightarrow> None
                       | Some uni2 \<Rightarrow>
                           if 0xdc00 \<le> uni2 \<and> uni2 \<le> 0xdfff then
                             append_char (0x10000 + ((uni - 0xd800) * 1024 + (uni2 - 0xdc00)))
                               (scanstring (drop 10 es))
                           else append_char uni (scanstring (drop 4 es)))
                    else append_char uni (scanstring (drop 4 es))))
      else if c < 32 then None
      else append_char c (scanstring cs))\<close>

definition int_of_digits :: "pystr \<Rightarrow> int" where
  "int_of_digits ds = foldl (\<lambda>acc d. acc * 10 + int (d - 48)) 0 ds"

text \<open>The exponent group \<^verbatim>\<open>([eE][-+]?[0-9]+)?\<close> at the start of a text (empty when absent).\<close>

definition match_exp_digits :: "nat \<Rightarrow> pystr \<Rightarrow> pystr \<Rightarrow> pystr" where
  "match_exp_digits e sign ds = (if ds = [] then [] else e # sign @ ds)"

definition match_exp :: "pystr \<Rightarrow> pystr" where
  \<open>match_exp r =
     (case r of
        [] \<Rightarrow> []
      | e # r' \<Rightarrow>
          if e = ord CHR ''e'' \<or> e = ord CHR ''E'' then
            (case r' of
               [] \<Rightarrow> []
             | c # r'' \<Rightarrow>
                 if c = ord CHR ''+'' \<or> c = ord CHR ''-'' then
                   match_exp_digits e [c] (takeWhile is_digit r'')
                 else match_exp_digits e [] (takeWhile is_digit r'))
          else [])\<close>

text \<open>
  \<^verbatim>\<open>NUMBER_RE = (-?(?:0|[1-9][0-9]*))(\.[0-9]+)?([eE][-+]?[0-9]+)?\<close> matched at the start of
  a text, group by group, and the value built from the groups: an int when there is
  neither fraction nor exponent, a float otherwise.
\<close>

text \<open>The decimal digits of a number, as \<^verbatim>\<open>%d\<close> prints it.\<close>

fun decimal :: "nat \<Rightarrow> pystr" where
  "decimal n = (if n < 10 then [48 + n] else decimal (n div 10) @ [48 + n mod 10])"

declare decimal.simps [simp del]

text \<open>
  \<^verbatim>\<open>int(integer)\<close> on the digits of the integer group: more than 4300 digits, the sign not
  counted, raise \<^verbatim>\<open>ValueError\<close>.
\<close>

definition parse_int :: "bool \<Rightarrow> pystr \<Rightarrow> loads_exn + pyval" where
  \<open>parse_int neg digits =
     (if 4300 < length digits then
        Inl (Raised (ValueError
          (py ''Exceeds the limit (4300 digits) for integer string conversion: value has '' @
           decimal (length digits) @
           py '' digits; use sys.set_int_max_str_digits() to increase the limit'')))
      else Inr (PInt (if neg then - int_of_digits digits else int_of_digits digits)))\<close>

definition number_value :: "bool \<Rightarrow> pystr \<Rightarrow> pystr \<Rightarrow> pystr \<Rightarrow> loads_exn + pyval" where
  \<open>number_value neg digits frac exp =
     (if frac \<noteq> [] \<or> exp \<noteq> [] then
        Inr (PFloat ((if neg then [ord CHR ''-''] else []) @ digits @ frac @ exp))
      else parse_int neg digits)\<close>

definition match_exponent ::
  "bool \<Rightarrow> pystr \<Rightarrow> pystr \<Rightarrow> pystr \<Rightarrow> pystr \<Rightarrow> loads_exn + pyval \<times> pystr" where
  "match_exponent neg digits frac exp r1 =
     (case number_value neg digits frac exp of
        Inl e \<Rightarrow> Inl e
      | Inr v \<Rightarrow> Inr (v, drop (length exp) r1))"

definition match_fraction :: "bool \<Rightarrow> pystr \<Rightarrow> pystr \<Rightarrow> loads_exn + pyval \<times> pystr" where
  \<open>match_fraction neg digits r0 =
     (case r0 of
        [] \<Rightarrow> match_exponent neg digits [] (match_exp r0) r0
      | c # cs \<Rightarrow>
          if c = ord CHR ''.'' \<and> takeWhile is_digit cs \<noteq> [] then
            match_exponent neg digits (c # takeWhile is_digit cs)
              (match_exp (dropWhile is_digit cs)) (dropWhile is_digit cs)
          else match_exponent neg digits [] (match_exp r0) r0)\<close>

text \<open>\<open>None\<close>: the pattern does not match here, and the scanner goes on to the constants.\<close>

definition match_integer :: "bool \<Rightarrow> pystr \<Rightarrow> (loads_exn + pyval \<times> pystr) option" where
  \<open>match_integer neg s1 =
     (case s1 of
        [] \<Rightarrow> None
      | d # ds \<Rightarrow>
          if d = ord CHR ''0'' then Some (match_fraction neg [d] ds)
          else if is_digit d then
            Some (match_fraction neg (takeWhile is_digit s1) (dropWhile is_digit s1))
          else None)\<close>

definition match_number :: "pystr \<Rightarrow> (loads_exn + pyval \<times> pystr) option" where
  \<open>match_number s =
     (case s of
        [] \<Rightarrow> None
      | c # cs \<Rightarrow> if c = ord CHR ''-'' then match_integer True cs else match_integer False s)\<close>

text \<open>\<^verbatim>\<open>d[k] = v\<close>, and \<^verbatim>\<open>dict(pairs)\<close>: a repeated key keeps its first place and its last value.\<close>

fun dict_set :: "pydict \<Rightarrow> pystr \<Rightarrow> pyval \<Rightarrow> pydict" where
  "dict_set [] k v = [(k, v)]"
| "dict_set (kv # d) k v = (if fst kv = k then (k, v) # d else kv # dict_set d k v)"

definition dict_of_pairs :: "(pystr \<times> pyval) list \<Rightarrow> pydict" where
  "dict_of_pairs pairs = foldl (\<lambda>d kv. dict_set d (fst kv) (snd kv)) [] pairs"

text \<open>
  The scanner \<^verbatim>\<open>scan_once\<close>, and the loops of the object parser (entered after the opening
  quote of a key) and of the array parser (entered at the start of a value). Entering an
  object or an array takes one level of the room the recursion limit leaves, and raises
  \<^verbatim>\<open>RecursionError\<close> when none is left. The first argument is fuel for the termination
  of the definition: its length bounds the number of calls, and \<open>json_loads\<close> gives
  twice the length of the text and one more, which a text never uses up. An error is
  raised where the scan meets it, from left to right.
\<close>

fun scan_once :: "unit list \<Rightarrow> nat \<Rightarrow> pystr \<Rightarrow> loads_exn + pyval \<times> pystr"
  and json_object_loop ::
    "unit list \<Rightarrow> nat \<Rightarrow> (pystr \<times> pyval) list \<Rightarrow> pystr \<Rightarrow> loads_exn + pyval \<times> pystr"
  and json_array_loop ::
    "unit list \<Rightarrow> nat \<Rightarrow> pyval list \<Rightarrow> pystr \<Rightarrow> loads_exn + pyval \<times> pystr"
where
  \<open>scan_once [] room s = Inl JSONDecodeError\<close>
| \<open>scan_once (u # n) room s =
     (case s of
        [] \<Rightarrow> Inl JSONDecodeError
      | nextchar # rest \<Rightarrow>
          if nextchar = ord CHR ''"'' then
            (case scanstring rest of
               None \<Rightarrow> Inl JSONDecodeError
             | Some (str, r) \<Rightarrow> Inr (PStr str, r))
          else if nextchar = ord CHR ''{'' then
            (case room of
               0 \<Rightarrow> Inl (Raised (RecursionError (py
                 ''maximum recursion depth exceeded while decoding a JSON object from a unicode string'')))
             | Suc room' \<Rightarrow>
                 (case skip_ws rest of
                    [] \<Rightarrow> Inl JSONDecodeError
                  | c # r \<Rightarrow>
                      if c = ord CHR ''}'' then Inr (PDict [], r)
                      else if c = ord CHR ''"'' then json_object_loop n room' [] r
                      else Inl JSONDecodeError))
          else if nextchar = ord CHR ''['' then
            (case room of
               0 \<Rightarrow> Inl (Raised (RecursionError (py
                 ''maximum recursion depth exceeded while decoding a JSON array from a unicode string'')))
             | Suc room' \<Rightarrow>
                 (case skip_ws rest of
                    [] \<Rightarrow> Inl JSONDecodeError
                  | c # r \<Rightarrow>
                      if c = ord CHR '']'' then Inr (PList [], r)
                      else json_array_loop n room' [] (c # r)))
          else if take 4 s = py ''null'' then Inr (PNone, drop 4 s)
          else if take 4 s = py ''true'' then Inr (PBool True, drop 4 s)
          else if take 5 s = py ''false'' then Inr (PBool False, drop 5 s)
          else
            (case match_number s of
               Some r \<Rightarrow> r
             | None \<Rightarrow>
                 if take 3 s = py ''NaN'' then Inr (PFloat (py ''NaN''), drop 3 s)
                 else if take 8 s = py ''Infinity'' then Inr (PFloat (py ''Infinity''), drop 8 s)
                 else if take 9 s = py ''-Infinity'' then Inr (PFloat (py ''-Infinity''), drop 9 s)
                 else Inl JSONDecodeError))\<close>
| \<open>json_object_loop [] room pairs s = Inl JSONDecodeError\<close>
| \<open>json_object_loop (u # n) room pairs s =
     (case scanstring s of
        None \<Rightarrow> Inl JSONDecodeError
      | Some (key, s1) \<Rightarrow>
          (case skip_ws s1 of
             [] \<Rightarrow> Inl JSONDecodeError
           | c # s2 \<Rightarrow>
               if c \<noteq> ord CHR '':'' then Inl JSONDecodeError
               else
                 (case scan_once n room (skip_ws s2) of
                    Inl e \<Rightarrow> Inl e
                  | Inr (v, s3) \<Rightarrow>
                      (case skip_ws s3 of
                         [] \<Rightarrow> Inl JSONDecodeError
                       | nextchar # s4 \<Rightarrow>
                           if nextchar = ord CHR ''}'' then
                             Inr (PDict (dict_of_pairs (pairs @ [(key, v)])), s4)
                           else if nextchar \<noteq> ord CHR '','' then Inl JSONDecodeError
                           else
                             (case skip_ws s4 of
                                [] \<Rightarrow> Inl JSONDecodeError
                              | q # s5 \<Rightarrow>
                                  if q \<noteq> ord CHR ''"'' then Inl JSONDecodeError
                                  else json_object_loop n room (pairs @ [(key, v)]) s5)))))\<close>
| \<open>json_array_loop [] room vals s = Inl JSONDecodeError\<close>
| \<open>json_array_loop (u # n) room vals s =
     (case scan_once n room s of
        Inl e \<Rightarrow> Inl e
      | Inr (v, s1) \<Rightarrow>
          (case skip_ws s1 of
             [] \<Rightarrow> Inl JSONDecodeError
           | nextchar # s2 \<Rightarrow>
               if nextchar = ord CHR '']'' then Inr (PList (vals @ [v]), s2)
               else if nextchar \<noteq> ord CHR '','' then Inl JSONDecodeError
               else json_array_loop n room (vals @ [v]) (skip_ws s2)))\<close>

text \<open>
  \<^verbatim>\<open>json.loads(s)\<close>: a leading byte order mark is refused, then one value between optional
  whitespace, and nothing after it.
\<close>

definition json_loads :: "nat \<Rightarrow> pystr \<Rightarrow> loads_exn + pyval" where
  "json_loads room s =
     (if s \<noteq> [] \<and> hd s = 0xfeff then Inl JSONDecodeError
      else
        (case scan_once (() # map (\<lambda>c. ()) (s @ s)) room (skip_ws s) of
           Inl e \<Rightarrow> Inl e
         | Inr (obj, rest) \<Rightarrow>
             if skip_ws rest = [] then Inr obj else Inl JSONDecodeError))"

text \<open>The exceptions that decoding can raise.\<close>

definition limit_error :: "loads_exn \<Rightarrow> bool" where
  "limit_error e \<longleftrightarrow>
     e = JSONDecodeError \<or> (\<exists>m. e = Raised (ValueError m)) \<or> (\<exists>m. e = Raised (RecursionError m))"

section \<open>The response interpreter\<close>

text \<open>
  \<^verbatim>\<open>re.search(r'\{.*\}', response_text, re.DOTALL)\<close>: the search tries each start position
  from the left; at a position the pattern matches when the character is an opening brace
  and a closing brace follows somewhere, and the greedy \<^verbatim>\<open>.*\<close>, which with \<^verbatim>\<open>DOTALL\<close>
  matches every character, runs to the last closing brace. \<open>greedy_to_rbrace\<close> is the
  longest prefix of a text that ends with a closing brace.
\<close>

definition greedy_to_rbrace :: "pystr \<Rightarrow> pystr" where
  \<open>greedy_to_rbrace cs = rev (dropWhile (\<lambda>c. c \<noteq> ord CHR ''}'') (rev cs))\<close>

fun re_search_json :: "pystr \<Rightarrow> pystr option" where
  \<open>re_search_json [] = None\<close>
| \<open>re_search_json (c # cs) =
     (if c = ord CHR ''{'' \<and> ord CHR ''}'' \<in> set cs then Some (c # greedy_to_rbrace cs)
      else re_search_json cs)\<close>

text \<open>
  \<^verbatim>\<open>_parse_json_response\<close>: the only handler is for \<^verbatim>\<open>json.JSONDecodeError\<close>, so any other
  exception of \<^verbatim>\<open>json.loads\<close> leaves the function.
\<close>

definition parse_json_response :: "pylib \<Rightarrow> pystr \<Rightarrow> pyexn + pyval" where
  "parse_json_response lib response_text =
     (case re_search_json response_text of
        Some json_str \<Rightarrow>
          (case json_loads (recursion_room lib) json_str of
             Inr v \<Rightarrow> Inr v
           | Inl JSONDecodeError \<Rightarrow> Inr (PDict [])
           | Inl (Raised e) \<Rightarrow> Inl e)
      | None \<Rightarrow> Inr (PDict []))"

section \<open>The processor and its prompts\<close>

text \<open>
  \<^verbatim>\<open>AIProcessor\<close> holds the model client. One call
  \<^verbatim>\<open>self.model.generate_content(prompt)\<close> followed by reading \<^verbatim>\<open>response.text\<close> gives the
  reply text or raises; the client is any function from the prompt to one of the two.
\<close>

record AIProcessor =
  generate_content :: "pystr \<Rightarrow> pyexn + pystr"

text \<open>
  The f-strings of the four operations, character by character. The prompt of
  \<^verbatim>\<open>summarize_document\<close> is the text before \<^verbatim>\<open>{text[:4000]}\<close>, the slice, and the text
  after it; likewise for the other two prompts that embed the document.
\<close>

definition summarize_prompt_head :: "pystr \<Rightarrow> pystr" where
  \<open>summarize_prompt_head language =
     py ''\<newline>'' @
     py ''            You are a legal document expert specializing in Indian legal documents. Please analyze this legal document and provide:\<newline>'' @
     py ''            \<newline>'' @
     py ''            1. A brief summary (2-3 sentences) in '' @
     language @
     py ''\<newline>'' @
     py ''            2. Key points in simple, plain language (5-7 bullet points) in '' @
     language @
     py ''\<newline>'' @
     py ''            3. Important dates, deadlines, or timeframes mentioned\<newline>'' @
     py ''            4. Main parties involved\<newline>'' @
     py ''            \<newline>'' @
     py ''            If the language is Hindi or any Indian language, please respond in that language using appropriate script (Devanagari for Hindi, etc.).\<newline>'' @
     py ''            Make the language simple and easy to understand for common people.\<newline>'' @
     py ''            \<newline>'' @
     py ''            Document text:\<newline>'' @
     py ''            ''\<close>

definition summarize_prompt_tail :: "pystr" where
  \<open>summarize_prompt_tail =
     py ''  # Limit text to avoid token limits\<newline>'' @
     py ''            \<newline>'' @
     py ''            Please format your response as JSON:\<newline>'' @
     py ''            {\<newline>'' @
     py ''                "summary": "Brief summary here",\<newline>'' @
     py ''                "key_points": ["Point 1", "Point 2", "Point 3"],\<newline>'' @
     py ''                "important_dates": ["Date 1", "Date 2"],\<newline>'' @
     py ''                "parties": ["Party 1", "Party 2"]\<newline>'' @
     py ''            }\<newline>'' @
     py ''            ''\<close>

definition summarize_prompt :: "pystr \<Rightarrow> pystr \<Rightarrow> pystr" where
  "summarize_prompt text language =
     summarize_prompt_head language @ take 4000 text @ summarize_prompt_tail"

definition answer_prompt_head :: "pystr \<Rightarrow> pystr \<Rightarrow> pystr" where
  \<open>answer_prompt_head question language =
     py ''\<newline>'' @
     py ''            You are a legal assistant specializing in Indian legal documents. Answer the following question about the legal document.\<newline>'' @
     py ''            Base your answer on the document content provided.\<newline>'' @
     py ''            Respond in '' @
     language @
     py '' in a clear, simple manner.\<newline>'' @
     py ''            If the language is Hindi or any Indian language, use the appropriate script (Devanagari for Hindi, etc.).\<newline>'' @
     py ''            Make your answer easy to understand for common people.\<newline>'' @
     py ''            \<newline>'' @
     py ''            Question: '' @
     question @
     py ''\<newline>'' @
     py ''            \<newline>'' @
     py ''            Document context:\<newline>'' @
     py ''            ''\<close>

definition answer_prompt_tail :: "pystr" where
  \<open>answer_prompt_tail =
     py ''  # Limit context to avoid token limits\<newline>'' @
     py ''            \<newline>'' @
     py ''            Please provide a direct, helpful answer based on the document content.\<newline>'' @
     py ''            If the information is not available in the document, say so clearly.\<newline>'' @
     py ''            ''\<close>

definition answer_prompt :: "pystr \<Rightarrow> pystr \<Rightarrow> pystr \<Rightarrow> pystr" where
  "answer_prompt question document_text language =
     answer_prompt_head question language @ take 3000 document_text @ answer_prompt_tail"

definition risk_prompt_head :: "pystr \<Rightarrow> pystr" where
  \<open>risk_prompt_head language =
     py ''\<newline>'' @
     py ''            You are an expert legal risk analyst specializing in Indian legal documents. Analyze this legal document thoroughly and identify potential risks using your understanding of legal language and context.\<newline>'' @
     py ''            \<newline>'' @
     py ''            IMPORTANT: Do not rely on simple keyword matching. Instead, analyze the actual meaning and context of sentences to determine if they pose real risks.\<newline>'' @
     py ''            \<newline>'' @
     py ''            Look for and analyze:\<newline>'' @
     py ''            1. Penalty and fee structures - Are they reasonable or excessive?\<newline>'' @
     py ''            2. Data collection and sharing policies - What data is collected and how is it used?\<newline>'' @
     py ''            3. Auto-renewal and subscription terms - Are users properly informed?\<newline>'' @
     py ''            4. Termination and cancellation clauses - Are they fair to users?\<newline>'' @
     py ''            5. Liability limitations and disclaimers - Are they overly broad?\<newline>'' @
     py ''            6. Unfair contract terms - Any terms that heavily favor one party?\<newline>'' @
     py ''            7. Hidden charges or fees - Any costs not clearly disclosed?\<newline>'' @
     py ''            8. Lock-in periods - Are users trapped in contracts?\<newline>'' @
     py ''            \<newline>'' @
     py ''            For each genuine risk found (not just keyword matches), provide:\<newline>'' @
     py ''            - Risk type (be specific)\<newline>'' @
     py ''            - Clear description in '' @
     language @
     py '' (use appropriate script for Indian languages)\<newline>'' @
     py ''            - Severity level (Low/Medium/High) based on actual impact\<newline>'' @
     py ''            - Relevant text excerpt that shows the risk\<newline>'' @
     py ''            \<newline>'' @
     py ''            Only report risks that are actually problematic, not just because certain words appear.\<newline>'' @
     py ''            \<newline>'' @
     py ''            Document text:\<newline>'' @
     py ''            ''\<close>

definition risk_prompt_tail :: "pystr \<Rightarrow> pystr" where
  \<open>risk_prompt_tail language =
     py ''\<newline>'' @
     py ''            \<newline>'' @
     py ''            Format as JSON:\<newline>'' @
     py ''            {\<newline>'' @
     py ''                "risks": [\<newline>'' @
     py ''                    {\<newline>'' @
     py ''                        "type": "Specific Risk Type",\<newline>'' @
     py ''                        "description": "Clear description in '' @
     language @
     py ''",\<newline>'' @
     py ''                        "severity": "Low/Medium/High",\<newline>'' @
     py ''                        "excerpt": "Exact text showing the risk"\<newline>'' @
     py ''                    }\<newline>'' @
     py ''                ]\<newline>'' @
     py ''            }\<newline>'' @
     py ''            ''\<close>

definition risk_prompt :: "pystr \<Rightarrow> pystr \<Rightarrow> pystr" where
  "risk_prompt text language =
     risk_prompt_head language @ take 4000 text @ risk_prompt_tail language"

definition safety_prompt :: "pylib \<Rightarrow> pyval \<Rightarrow> pyval \<Rightarrow> pyval \<Rightarrow> pyval \<Rightarrow> pyval \<Rightarrow> pystr \<Rightarrow> pystr" where
  \<open>safety_prompt lib total_risks high_risk_count medium_risk_count low_risk_count detected language =
     py ''\<newline>'' @
     py ''            You are a legal advisor providing safety recommendations for document signing. Based on the document analysis and detected risks, provide a clear recommendation.\<newline>'' @
     py ''            \<newline>'' @
     py ''            Document risks summary:\<newline>'' @
     py ''            - Total risks: '' @
     str_of lib total_risks @
     py ''\<newline>'' @
     py ''            - High risk: '' @
     str_of lib high_risk_count @
     py ''\<newline>'' @
     py ''            - Medium risk: '' @
     str_of lib medium_risk_count @
     py ''\<newline>'' @
     py ''            - Low risk: '' @
     str_of lib low_risk_count @
     py ''\<newline>'' @
     py ''            \<newline>'' @
     py ''            Detected risks: '' @
     json_dumps lib detected @
     py ''\<newline>'' @
     py ''            \<newline>'' @
     py ''            Provide a safety recommendation in '' @
     language @
     py '' with:\<newline>'' @
     py ''            1. Overall safety level (SAFE/WARNING/DANGER)\<newline>'' @
     py ''            2. Clear recommendation (should they sign or not?)\<newline>'' @
     py ''            3. Specific reasons based on the risks found\<newline>'' @
     py ''            4. Any specific clauses to negotiate or modify\<newline>'' @
     py ''            \<newline>'' @
     py ''            Consider:\<newline>'' @
     py ''            - High risk count indicates danger\<newline>'' @
     py ''            - Medium risk count indicates caution needed\<newline>'' @
     py ''            - Low risk count is generally acceptable\<newline>'' @
     py ''            - Context and severity of individual risks\<newline>'' @
     py ''            \<newline>'' @
     py ''            Format as JSON:\<newline>'' @
     py ''            {\<newline>'' @
     py ''                "safety_level": "SAFE/WARNING/DANGER",\<newline>'' @
     py ''                "recommendation": "Clear recommendation in '' @
     language @
     py ''",\<newline>'' @
     py ''                "reasons": ["Reason 1", "Reason 2", "Reason 3"],\<newline>'' @
     py ''                "suggestions": ["Suggestion 1", "Suggestion 2"]\<newline>'' @
     py ''            }\<newline>'' @
     py ''            ''\<close>

section \<open>The four operations\<close>

text \<open>
  Each operation is one \<^verbatim>\<open>try\<close> block with one handler for \<^verbatim>\<open>Exception\<close>. The block is
  the function named \<open>..._try\<close>, the operation wraps it in the handler.
\<close>

definition summarize_document_try ::
  "AIProcessor \<Rightarrow> pylib \<Rightarrow> pystr \<Rightarrow> pystr \<Rightarrow> pyexn + pyval" where
  "summarize_document_try self lib text language =
     bind (generate_content self (summarize_prompt text language)) (\<lambda>response_text.
     bind (parse_json_response lib response_text) (\<lambda>result.
     bind (py_get result (py ''summary'') (PStr (py ''Summary not available''))) (\<lambda>summary.
     bind (py_get result (py ''key_points'') (PList [])) (\<lambda>key_points.
     bind (py_get result (py ''important_dates'') (PList [])) (\<lambda>important_dates.
     bind (py_get result (py ''parties'') (PList [])) (\<lambda>parties.
     Inr (PDict
       [(py ''summary'', summary),
        (py ''key_points'', key_points),
        (py ''important_dates'', important_dates),
        (py ''parties'', parties),
        (py ''language'', PStr language)])))))))"

definition summarize_document ::
  "AIProcessor \<Rightarrow> pylib \<Rightarrow> pystr \<Rightarrow> pystr \<Rightarrow> pyexn + pyval" where
  "summarize_document self lib text language =
     try_except (summarize_document_try self lib text language) (\<lambda>e.
       Inr (PDict
         [(py ''summary'', PStr (py ''Error generating summary: '' @ str_exn e)),
          (py ''key_points'', PList []),
          (py ''important_dates'', PList []),
          (py ''parties'', PList []),
          (py ''language'', PStr language)]))"





text \<open>
  \<^verbatim>\<open>[r for r in risks if r.get('severity') == level]\<close>, over the elements that iterating
  \<^verbatim>\<open>risks\<close> yields: the first element without a \<^verbatim>\<open>get\<close> method raises.
\<close>

fun with_severity :: "pyval list \<Rightarrow> pystr \<Rightarrow> pyexn + pyval list" where
  "with_severity [] level = Inr []"
| "with_severity (r # rs) level =
     bind (py_get r (py ''severity'') PNone) (\<lambda>severity.
     bind (with_severity rs level) (\<lambda>kept.
     Inr (if severity = PStr level then r # kept else kept)))"

definition count_severity :: "pyval \<Rightarrow> pystr \<Rightarrow> pyexn + pyval" where
  "count_severity risks level =
     bind (py_iter risks) (\<lambda>items.
     bind (with_severity items level) (\<lambda>kept.
     Inr (PInt (int (length kept)))))"

text \<open>The test of the comprehension on one element, where the element has a \<^verbatim>\<open>get\<close> method.\<close>

definition severity_is :: "pystr \<Rightarrow> pyval \<Rightarrow> bool" where
  "severity_is level r \<longleftrightarrow> py_get r (py ''severity'') PNone = Inr (PStr level)"

definition detect_risks_advanced_try ::
  "AIProcessor \<Rightarrow> pylib \<Rightarrow> pystr \<Rightarrow> pystr \<Rightarrow> pyexn + pyval" where
  "detect_risks_advanced_try self lib text language =
     bind (generate_content self (risk_prompt text language)) (\<lambda>response_text.
     bind (parse_json_response lib response_text) (\<lambda>result.
     bind (py_get result (py ''risks'') (PList [])) (\<lambda>risks.
     bind (py_len risks) (\<lambda>total_risks.
     bind (count_severity risks (py ''High'')) (\<lambda>high_risk_count.
     bind (count_severity risks (py ''Medium'')) (\<lambda>medium_risk_count.
     bind (count_severity risks (py ''Low'')) (\<lambda>low_risk_count.
     Inr (PDict
       [(py ''total_risks'', PInt (int total_risks)),
        (py ''high_risk_count'', high_risk_count),
        (py ''medium_risk_count'', medium_risk_count),
        (py ''low_risk_count'', low_risk_count),
        (py ''risks'', risks),
        (py ''language'', PStr language)]))))))))"

definition detect_risks_advanced ::
  "AIProcessor \<Rightarrow> pylib \<Rightarrow> pystr \<Rightarrow> pystr \<Rightarrow> pyexn + pyval" where
  "detect_risks_advanced self lib text language =
     try_except (detect_risks_advanced_try self lib text language) (\<lambda>e.
       Inr (PDict
         [(py ''total_risks'', PInt 0),
          (py ''high_risk_count'', PInt 0),
          (py ''medium_risk_count'', PInt 0),
          (py ''low_risk_count'', PInt 0),
          (py ''risks'', PList []),
          (py ''language'', PStr language),
          (py ''error'', PStr (str_exn e))]))"

text \<open>
  \<^verbatim>\<open>get_safety_recommendation\<close>: the f-string of the prompt reads the risk report with
  \<^verbatim>\<open>risks.get\<close>, five times from left to right, inside the \<^verbatim>\<open>try\<close> block; the document
  text is a parameter the body never reads.
\<close>

definition safety_prompt_for :: "pylib \<Rightarrow> pyval \<Rightarrow> pystr \<Rightarrow> pyexn + pystr" where
  "safety_prompt_for lib risks language =
     bind (py_get risks (py ''total_risks'') (PInt 0)) (\<lambda>total_risks.
     bind (py_get risks (py ''high_risk_count'') (PInt 0)) (\<lambda>high_risk_count.
     bind (py_get risks (py ''medium_risk_count'') (PInt 0)) (\<lambda>medium_risk_count.
     bind (py_get risks (py ''low_risk_count'') (PInt 0)) (\<lambda>low_risk_count.
     bind (py_get risks (py ''risks'') (PList [])) (\<lambda>detected.
     Inr (safety_prompt lib total_risks high_risk_count medium_risk_count low_risk_count
            detected language))))))"

definition get_safety_recommendation_try ::
  "AIProcessor \<Rightarrow> pylib \<Rightarrow> pystr \<Rightarrow> pyval \<Rightarrow> pystr \<Rightarrow> pyexn + pyval" where
  "get_safety_recommendation_try self lib text risks language =
     bind (safety_prompt_for lib risks language) (\<lambda>prompt.
     bind (generate_content self prompt) (\<lambda>response_text.
     bind (parse_json_response lib response_text) (\<lambda>result.
     bind (py_get result (py ''safety_level'') (PStr (py ''WARNING''))) (\<lambda>safety_level.
     bind (py_get result (py ''recommendation'')
             (PStr (py ''Please review the document carefully''))) (\<lambda>recommendation.
     bind (py_get result (py ''reasons'') (PList [])) (\<lambda>reasons.
     bind (py_get result (py ''suggestions'') (PList [])) (\<lambda>suggestions.
     Inr (PDict
       [(py ''safety_level'', safety_level),
        (py ''recommendation'', recommendation),
        (py ''reasons'', reasons),
        (py ''suggestions'', suggestions),
        (py ''language'', PStr language)]))))))))"

definition get_safety_recommendation ::
  "AIProcessor \<Rightarrow> pylib \<Rightarrow> pystr \<Rightarrow> pyval \<Rightarrow> pystr \<Rightarrow> pyexn + pyval" where
  "get_safety_recommendation self lib text risks language =
     try_except (get_safety_recommendation_try self lib text risks language) (\<lambda>e.
       Inr (PDict
         [(py ''safety_level'', PStr (py ''WARNING'')),
          (py ''recommendation'', PStr (py ''Unable to analyze safety: '' @ str_exn e)),
          (py ''reasons'', PList [PStr (py ''Analysis error occurred'')]),
          (py ''suggestions'', PList [PStr (py ''Please review the document manually'')]),
          (py ''language'', PStr language)]))"

section \<open>The language registry\<close>

text \<open>\<^verbatim>\<open>SUPPORTED_LANGUAGES\<close> of \<^verbatim>\<open>config.py\<close>, in the order the file gives.\<close>

definition SUPPORTED_LANGUAGES :: "(pystr \<times> pystr) list" where
  "SUPPORTED_LANGUAGES =
     [(py ''English'', py ''en''),
      (py ''Hindi'', py ''hi''),
      (py ''Bengali'', py ''bn''),
      (py ''Telugu'', py ''te''),
      (py ''Marathi'', py ''mr''),
      (py ''Tamil'', py ''ta''),
      (py ''Gujarati'', py ''gu''),
      (py ''Kannada'', py ''kn''),
      (py ''Malayalam'', py ''ml''),
      (py ''Punjabi'', py ''pa''),
      (py ''Odia'', py ''or''),
      (py ''Assamese'', py ''as''),
      (py ''Urdu'', py ''ur''),
      (py ''Sanskrit'', py ''sa''),
      (py ''Nepali'', py ''ne''),
      (py ''Bhojpuri'', py ''bh'')]"

definition get_supported_languages :: "AIProcessor \<Rightarrow> (pystr \<times> pystr) list" where
  "get_supported_languages self = SUPPORTED_LANGUAGES"

text \<open>\<^verbatim>\<open>language in SUPPORTED_LANGUAGES\<close>: membership among the keys.\<close>

definition validate_language :: "AIProcessor \<Rightarrow> pystr \<Rightarrow> bool" where
  "validate_language self language \<longleftrightarrow> map_of SUPPORTED_LANGUAGES language \<noteq> None"

text \<open>A test double: a client that returns the given reply, and one that raises.\<close>

definition replying :: "pystr \<Rightarrow> AIProcessor" where
  "replying reply = \<lparr>generate_content = (\<lambda>prompt. Inr reply)\<rparr>"

definition failing :: "pyexn \<Rightarrow> AIProcessor" where
  "failing e = \<lparr>generate_content = (\<lambda>prompt. Inl e)\<rparr>"

text \<open>
  An interpreter for closed examples: stand-ins for the two renderers, which both give the
  type name, and room for 900 nested objects and arrays.
\<close>

definition plain_lib :: "pylib" where
  "plain_lib = \<lparr>str_of = type_name, json_dumps = type_name, recursion_room = 900\<rparr>"


section \<open>Basic facts\<close>

text \<open>The equations that evaluate the decoder and the interpreter on a given text.\<close>

lemmas json_eval = parse_json_response_def json_loads_def skip_ws_def is_ws_def is_digit_def
  dict_of_pairs_def append_char_def backslash_def decode_uXXXX_def hex_value_def
  match_number_def match_integer_def match_fraction_def match_exponent_def match_exp_def
  match_exp_digits_def number_value_def parse_int_def int_of_digits_def greedy_to_rbrace_def

lemma bind_simps [simp]: "bind (Inl e) f = Inl e" "bind (Inr x) f = f x"
  by (simp_all add: bind_def)

lemma bind_eq_Inr: "bind m f = Inr y \<longleftrightarrow> (\<exists>x. m = Inr x \<and> f x = Inr y)"
  by (cases m) simp_all

lemma bind_eq_Inl: "bind m f = Inl e \<longleftrightarrow> m = Inl e \<or> (\<exists>x. m = Inr x \<and> f x = Inl e)"
  by (cases m) simp_all

lemma try_except_simps [simp]: "try_except (Inl e) h = h e" "try_except (Inr x) h = Inr x"
  by (simp_all add: try_except_def)

lemma py_get_dict [simp]: "py_get (PDict d) k dflt = Inr (dict_get d k dflt)"
  by (simp add: py_get_def)

subsection \<open>What the decoder returns and raises\<close>

lemma object_loop_dict:
  "json_object_loop n room pairs s = Inr (v, r) \<Longrightarrow> \<exists>d. v = PDict d"
proof (induction n arbitrary: pairs s)
  case Nil then show ?case by simp
next
  case (Cons u n)
  from Cons.prems show ?case
    by (auto split: option.splits list.splits if_splits prod.splits sum.splits dest: Cons.IH)
qed

lemma scan_once_brace:
  "scan_once n room (123 # rest) = Inr (v, r) \<Longrightarrow> \<exists>d. v = PDict d"
  by (cases n) (auto split: list.splits if_splits nat.splits dest: object_loop_dict)

lemma skip_ws_brace [simp]: "skip_ws (123 # rest) = 123 # rest"
  by (simp add: skip_ws_def is_ws_def)

lemma json_loads_brace: "json_loads room (123 # rest) = Inr v \<Longrightarrow> \<exists>d. v = PDict d"
  by (auto simp: json_loads_def simp del: scan_once.simps
      split: sum.splits prod.splits if_splits dest: scan_once_brace)

lemma match_number_raises: "match_number s = Some (Inl e) \<Longrightarrow> limit_error e"
  by (auto simp: match_number_def match_integer_def match_fraction_def match_exponent_def
      number_value_def parse_int_def limit_error_def
      split: list.splits if_splits sum.splits)

lemma scan_raises:
  "scan_once n room s = Inl e \<Longrightarrow> limit_error e"
  "json_object_loop n room pairs s = Inl e \<Longrightarrow> limit_error e"
  "json_array_loop n room vals s = Inl e \<Longrightarrow> limit_error e"
proof (induction n arbitrary: room s pairs vals e)
  case Nil
  { case 1 then show ?case by (simp add: limit_error_def) }
  { case 2 then show ?case by (simp add: limit_error_def) }
  { case 3 then show ?case by (simp add: limit_error_def) }
next
  case (Cons u n)
  { case 1
    then show ?case
      by (auto simp: limit_error_def [of JSONDecodeError] limit_error_def [of "Raised (RecursionError _)"]
          split: list.splits if_splits option.splits nat.splits prod.splits
          dest: Cons.IH match_number_raises) }
  { case 2
    then show ?case
      by (auto simp: limit_error_def [of JSONDecodeError]
          split: list.splits if_splits option.splits prod.splits sum.splits
          dest: Cons.IH) }
  { case 3
    then show ?case
      by (auto simp: limit_error_def [of JSONDecodeError]
          split: list.splits if_splits option.splits prod.splits sum.splits
          dest: Cons.IH) }
qed

lemma json_loads_raises: "json_loads room s = Inl e \<Longrightarrow> limit_error e"
  by (auto simp: json_loads_def limit_error_def [of JSONDecodeError] simp del: scan_once.simps
      split: sum.splits prod.splits if_splits dest: scan_raises(1))

lemma re_search_hd: "re_search_json s = Some c \<Longrightarrow> \<exists>body. c = 123 # body"
  by (induction s) (auto split: if_splits)

lemma parse_json_response_cases:
  "(\<exists>d. parse_json_response lib s = Inr (PDict d))
   \<or> (\<exists>m. parse_json_response lib s = Inl (ValueError m))
   \<or> (\<exists>m. parse_json_response lib s = Inl (RecursionError m))"
proof (cases "re_search_json s")
  case None then show ?thesis by (simp add: parse_json_response_def)
next
  case (Some c)
  then obtain body where c: "c = 123 # body" using re_search_hd by blast
  show ?thesis
  proof (cases "json_loads (recursion_room lib) c")
    case (Inl e)
    from json_loads_raises [OF Inl] show ?thesis
      using Some Inl by (auto simp: parse_json_response_def limit_error_def)
  next
    case (Inr v)
    then obtain d where "v = PDict d" using json_loads_brace c by blast
    then show ?thesis using Some Inr by (simp add: parse_json_response_def)
  qed
qed

lemma parse_json_response_Inr:
  "parse_json_response lib s = Inr v \<Longrightarrow> \<exists>d. v = PDict d"
  using parse_json_response_cases [of lib s] by auto

subsection \<open>The search for the candidate\<close>

lemma greedy_prefix:
  "125 \<in> set cs \<Longrightarrow>
   \<exists>post. cs = greedy_to_rbrace cs @ post \<and> 125 \<notin> set post \<and>
          greedy_to_rbrace cs \<noteq> [] \<and> last (greedy_to_rbrace cs) = 125"
proof -
  assume a: "125 \<in> set cs"
  let ?p = "\<lambda>c. c \<noteq> (125::nat)"
  have split: "rev cs = takeWhile ?p (rev cs) @ dropWhile ?p (rev cs)" by simp
  have ne: "dropWhile ?p (rev cs) \<noteq> []" using a by (simp add: dropWhile_eq_Nil_conv)
  have hd: "hd (dropWhile ?p (rev cs)) = 125" using ne hd_dropWhile[of ?p "rev cs"] by simp
  have "cs = rev (dropWhile ?p (rev cs)) @ rev (takeWhile ?p (rev cs))"
    using split by (metis rev_append rev_rev_ident)
  moreover have "125 \<notin> set (rev (takeWhile ?p (rev cs)))"
    using set_takeWhileD by fastforce
  moreover have "last (rev (dropWhile ?p (rev cs))) = 125" using ne hd by (simp add: last_rev)
  ultimately show ?thesis using ne unfolding greedy_to_rbrace_def by auto
qed

lemma re_search_Some:
  "re_search_json s = Some c \<Longrightarrow>
   \<exists>pre body post. s = pre @ c @ post \<and> 123 \<notin> set pre \<and> 125 \<notin> set post \<and>
      c = 123 # body \<and> body \<noteq> [] \<and> last body = 125"
proof (induction s)
  case Nil then show ?case by simp
next
  case (Cons a s)
  show ?case
  proof (cases "a = 123 \<and> 125 \<in> set s")
    case True
    then obtain post where p: "s = greedy_to_rbrace s @ post" "125 \<notin> set post"
        "greedy_to_rbrace s \<noteq> []" "last (greedy_to_rbrace s) = 125"
      using greedy_prefix by blast
    from True Cons.prems have c: "c = a # greedy_to_rbrace s" by simp
    show ?thesis
      apply (rule exI[of _ "[]"], rule exI[of _ "greedy_to_rbrace s"], rule exI[of _ post])
      using p c True by simp
  next
    case False
    then have r: "re_search_json s = Some c" using Cons.prems by auto
    from Cons.IH[OF r] obtain pre body post where
      h: "s = pre @ c @ post" "123 \<notin> set pre" "125 \<notin> set post" "c = 123 # body"
         "body \<noteq> []" "last body = 125" by blast
    have "125 \<in> set body" using h(5,6) last_in_set by metis
    then have "125 \<in> set s" using h(1,4) by simp
    then have "a \<noteq> 123" using False by blast
    then show ?thesis
      apply -
      apply (rule exI[of _ "a # pre"], rule exI[of _ body], rule exI[of _ post])
      using h by simp
  qed
qed


section \<open>The language registry\<close>

text \<open>
  C9. \<^verbatim>\<open>validate_language\<close> is true of a name exactly when the name is one of the sixteen
  keys of \<^verbatim>\<open>SUPPORTED_LANGUAGES\<close>: true of English, false of Klingon.
  \<^verbatim>\<open>get_supported_languages\<close> returns that table whatever the processor, so every call
  returns the same mapping; it is not empty and its keys are distinct.
\<close>

theorem language_registry:
  "(validate_language self name \<longleftrightarrow>
      name \<in> {py ''English'', py ''Hindi'', py ''Bengali'', py ''Telugu'', py ''Marathi'',
        py ''Tamil'', py ''Gujarati'', py ''Kannada'', py ''Malayalam'', py ''Punjabi'',
        py ''Odia'', py ''Assamese'', py ''Urdu'', py ''Sanskrit'', py ''Nepali'',
        py ''Bhojpuri''})
   \<and> (validate_language self name \<longleftrightarrow> name \<in> fst ` set (get_supported_languages self))
   \<and> validate_language self (py ''English'')
   \<and> \<not> validate_language self (py ''Klingon'')
   \<and> get_supported_languages self = get_supported_languages other
   \<and> get_supported_languages self \<noteq> []
   \<and> length (get_supported_languages self) = 16
   \<and> distinct (map fst (get_supported_languages self))"
proof -
  have keys: "fst ` set SUPPORTED_LANGUAGES =
      {py ''English'', py ''Hindi'', py ''Bengali'', py ''Telugu'', py ''Marathi'',
        py ''Tamil'', py ''Gujarati'', py ''Kannada'', py ''Malayalam'', py ''Punjabi'',
        py ''Odia'', py ''Assamese'', py ''Urdu'', py ''Sanskrit'', py ''Nepali'',
        py ''Bhojpuri''}"
    unfolding SUPPORTED_LANGUAGES_def by simp
  have mem: "validate_language self name \<longleftrightarrow> name \<in> fst ` set SUPPORTED_LANGUAGES"
    by (simp add: validate_language_def map_of_eq_None_iff)
  have en: "validate_language self (py ''English'')"
    by (simp add: validate_language_def SUPPORTED_LANGUAGES_def)
  have kl: "\<not> validate_language self (py ''Klingon'')"
    by (simp add: validate_language_def SUPPORTED_LANGUAGES_def)
  have ne: "SUPPORTED_LANGUAGES \<noteq> []" "length SUPPORTED_LANGUAGES = 16"
    by (simp_all add: SUPPORTED_LANGUAGES_def)
  have di: "distinct (map fst SUPPORTED_LANGUAGES)"
    unfolding SUPPORTED_LANGUAGES_def by simp
  show ?thesis
    using keys mem en kl ne di unfolding get_supported_languages_def by simp
qed

section \<open>Truncation of the document text\<close>

text \<open>
  C7. A document text longer than 4000 characters enters the summarization prompt and the
  risk prompt as its prefix of exactly 4000 characters, between the two fixed parts of
  the prompt; a text of at most 4000 characters enters unchanged. The question-answering
  prompt does the same with 3000 characters, a strictly smaller budget.
\<close>

theorem prompt_truncation:
  "(4000 < length text \<longrightarrow>
      (\<exists>p rest. text = p @ rest \<and> length p = 4000 \<and> rest \<noteq> [] \<and>
         summarize_prompt text language =
           summarize_prompt_head language @ p @ summarize_prompt_tail \<and>
         risk_prompt text language =
           risk_prompt_head language @ p @ risk_prompt_tail language))
   \<and> (length text \<le> 4000 \<longrightarrow>
         summarize_prompt text language =
           summarize_prompt_head language @ text @ summarize_prompt_tail \<and>
         risk_prompt text language =
           risk_prompt_head language @ text @ risk_prompt_tail language)
   \<and> (3000 < length text \<longrightarrow>
      (\<exists>p rest. text = p @ rest \<and> length p = 3000 \<and> rest \<noteq> [] \<and>
         answer_prompt question text language =
           answer_prompt_head question language @ p @ answer_prompt_tail))
   \<and> (length text \<le> 3000 \<longrightarrow>
         answer_prompt question text language =
           answer_prompt_head question language @ text @ answer_prompt_tail)
   \<and> (3000::nat) < 4000"
proof (intro conjI impI)
  assume long: "4000 < length text"
  show "\<exists>p rest. text = p @ rest \<and> length p = 4000 \<and> rest \<noteq> [] \<and>
         summarize_prompt text language =
           summarize_prompt_head language @ p @ summarize_prompt_tail \<and>
         risk_prompt text language =
           risk_prompt_head language @ p @ risk_prompt_tail language"
    apply (rule exI[of _ "take 4000 text"], rule exI[of _ "drop 4000 text"])
    using long by (simp add: summarize_prompt_def risk_prompt_def)
next
  assume long: "3000 < length text"
  show "\<exists>p rest. text = p @ rest \<and> length p = 3000 \<and> rest \<noteq> [] \<and>
         answer_prompt question text language =
           answer_prompt_head question language @ p @ answer_prompt_tail"
    apply (rule exI[of _ "take 3000 text"], rule exI[of _ "drop 3000 text"])
    using long by (simp add: answer_prompt_def)
qed (simp_all add: summarize_prompt_def risk_prompt_def answer_prompt_def)

theorem prompt_truncation_witness:
  "(\<exists>p rest. replicate 4001 (120::nat) = p @ rest \<and> length p = 4000 \<and> rest \<noteq> [] \<and>
      summarize_prompt (replicate 4001 120) (py ''English'') =
        summarize_prompt_head (py ''English'') @ p @ summarize_prompt_tail \<and>
      risk_prompt (replicate 4001 120) (py ''English'') =
        risk_prompt_head (py ''English'') @ p @ risk_prompt_tail (py ''English''))
   \<and> (\<exists>p rest. replicate 4001 (120::nat) = p @ rest \<and> length p = 3000 \<and> rest \<noteq> [] \<and>
      answer_prompt (py ''Who pays?'') (replicate 4001 120) (py ''English'') =
        answer_prompt_head (py ''Who pays?'') (py ''English'') @ p @ answer_prompt_tail)
   \<and> summarize_prompt (py ''Late payments incur a 5% penalty.'') (py ''English'') =
        summarize_prompt_head (py ''English'') @ py ''Late payments incur a 5% penalty.'' @
        summarize_prompt_tail
   \<and> answer_prompt (py ''Who pays?'') (py ''Late payments incur a 5% penalty.'') (py ''English'') =
        answer_prompt_head (py ''Who pays?'') (py ''English'') @
        py ''Late payments incur a 5% penalty.'' @ answer_prompt_tail"
proof -
  have long: "4000 < length (replicate 4001 (120::nat))" "3000 < length (replicate 4001 (120::nat))"
    by simp_all
  have short: "length (py ''Late payments incur a 5% penalty.'') \<le> 4000"
    "length (py ''Late payments incur a 5% penalty.'') \<le> 3000"
    by simp_all
  show ?thesis
    using long
      prompt_truncation [of "replicate 4001 120" "py ''English''" "py ''Who pays?''"]
      short
      prompt_truncation [of "py ''Late payments incur a 5% penalty.''" "py ''English''" "py ''Who pays?''"]
    by blast
qed

section \<open>What the interpreter returns\<close>






section \<open>The candidate the interpreter decodes\<close>

text \<open>
  C5, as the specification states it, fails. The reply below starts with a well-formed block
  and has a second bracketed region after it. The candidate is the whole reply, from the
  first opening brace to the last closing brace; \<^verbatim>\<open>json.loads\<close> rejects it, and the
  interpreter returns the empty record although the first block alone decodes.
\<close>

theorem first_block_not_decoded_counterexample:
  \<open>json_loads (recursion_room plain_lib) (py ''{"summary": "ok"}'') =
       Inr (PDict [(py ''summary'', PStr (py ''ok''))])
   \<and> re_search_json (py ''{"summary": "ok"} as in {"summary": "..."}'') =
       Some (py ''{"summary": "ok"} as in {"summary": "..."}'')
   \<and> parse_json_response plain_lib (py ''{"summary": "ok"} as in {"summary": "..."}'') =
       Inr (PDict [])\<close>
  by (simp add: json_eval plain_lib_def)

text \<open>
  C5, amended. There is one candidate: it starts at the first opening brace of the reply and
  ends at the last closing brace, so it spans every bracketed region of the reply and the
  text between them. The interpreter returns what \<^verbatim>\<open>json.loads\<close> decodes the candidate to,
  the empty record when \<^verbatim>\<open>json.loads\<close> rejects the candidate with \<^verbatim>\<open>JSONDecodeError\<close>, and it
  raises what \<^verbatim>\<open>json.loads\<close> raises otherwise.
\<close>

theorem candidate_first_to_last:
  \<open>re_search_json reply = Some candidate \<Longrightarrow>
   (\<exists>pre body post.
      reply = pre @ candidate @ post \<and> ord CHR ''{'' \<notin> set pre \<and> ord CHR ''}'' \<notin> set post \<and>
      candidate = ord CHR ''{'' # body \<and> body \<noteq> [] \<and> last body = ord CHR ''}'')
   \<and> parse_json_response lib reply =
       (case json_loads (recursion_room lib) candidate of
          Inr v \<Rightarrow> Inr v
        | Inl JSONDecodeError \<Rightarrow> Inr (PDict [])
        | Inl (Raised e) \<Rightarrow> Inl e)\<close>
proof
  assume a: "re_search_json reply = Some candidate"
  then show \<open>\<exists>pre body post.
      reply = pre @ candidate @ post \<and> ord CHR ''{'' \<notin> set pre \<and> ord CHR ''}'' \<notin> set post \<and>
      candidate = ord CHR ''{'' # body \<and> body \<noteq> [] \<and> last body = ord CHR ''}''\<close>
    using re_search_Some [OF a] by simp
  show "parse_json_response lib reply =
       (case json_loads (recursion_room lib) candidate of
          Inr v \<Rightarrow> Inr v
        | Inl JSONDecodeError \<Rightarrow> Inr (PDict [])
        | Inl (Raised e) \<Rightarrow> Inl e)"
    using a by (simp add: parse_json_response_def)
qed

theorem candidate_first_to_last_witness:
  \<open>(\<exists>pre body post.
      py ''so {"a": 1} and {"b": 2} too'' = pre @ py ''{"a": 1} and {"b": 2}'' @ post \<and>
      ord CHR ''{'' \<notin> set pre \<and> ord CHR ''}'' \<notin> set post \<and>
      py ''{"a": 1} and {"b": 2}'' = ord CHR ''{'' # body \<and> body \<noteq> [] \<and> last body = ord CHR ''}'')
   \<and> parse_json_response plain_lib (py ''so {"a": 1} and {"b": 2} too'') = Inr (PDict [])\<close>
proof -
  have a: \<open>re_search_json (py ''so {"a": 1} and {"b": 2} too'') = Some (py ''{"a": 1} and {"b": 2}'')\<close>
    by (simp add: json_eval)
  have b: \<open>json_loads (recursion_room plain_lib) (py ''{"a": 1} and {"b": 2}'') = Inl JSONDecodeError\<close>
    by (simp add: json_eval plain_lib_def)
  from candidate_first_to_last [OF a, of plain_lib] b show ?thesis
    by (simp only: sum.case loads_exn.case)
qed

section \<open>The operations always return\<close>

lemma summarize_try_fail:
  "generate_content self (summarize_prompt text language) = Inl e \<Longrightarrow>
   summarize_document_try self lib text language = Inl e"
  by (simp add: summarize_document_try_def)

lemma summarize_try_reply:
  "generate_content self (summarize_prompt text language) = Inr reply \<Longrightarrow>
   parse_json_response lib reply = Inr (PDict result) \<Longrightarrow>
   summarize_document_try self lib text language =
     Inr (PDict
       [(py ''summary'', dict_get result (py ''summary'') (PStr (py ''Summary not available''))),
        (py ''key_points'', dict_get result (py ''key_points'') (PList [])),
        (py ''important_dates'', dict_get result (py ''important_dates'') (PList [])),
        (py ''parties'', dict_get result (py ''parties'') (PList [])),
        (py ''language'', PStr language)])"
  by (simp add: summarize_document_try_def)

lemma summarize_try_raise:
  "generate_content self (summarize_prompt text language) = Inr reply \<Longrightarrow>
   parse_json_response lib reply = Inl e \<Longrightarrow>
   summarize_document_try self lib text language = Inl e"
  by (simp add: summarize_document_try_def)

lemma summarize_try_cases:
  "(\<exists>e. summarize_document_try self lib text language = Inl e)
   \<or> (\<exists>reply result. generate_content self (summarize_prompt text language) = Inr reply \<and>
        parse_json_response lib reply = Inr (PDict result) \<and>
        summarize_document_try self lib text language =
          Inr (PDict
            [(py ''summary'', dict_get result (py ''summary'') (PStr (py ''Summary not available''))),
             (py ''key_points'', dict_get result (py ''key_points'') (PList [])),
             (py ''important_dates'', dict_get result (py ''important_dates'') (PList [])),
             (py ''parties'', dict_get result (py ''parties'') (PList [])),
             (py ''language'', PStr language)]))"
proof (cases "generate_content self (summarize_prompt text language)")
  case (Inl e)
  then show ?thesis using summarize_try_fail by blast
next
  case (Inr reply)
  show ?thesis
  proof (cases "parse_json_response lib reply")
    case (Inl e)
    with Inr show ?thesis using summarize_try_raise by blast
  next
    case r: (Inr v)
    then obtain result where "v = PDict result" using parse_json_response_Inr by blast
    with r Inr show ?thesis using summarize_try_reply by blast
  qed
qed

lemma summarize_shape:
  "\<exists>summary key_points important_dates parties.
     summarize_document self lib text language =
       Inr (PDict
         [(py ''summary'', summary),
          (py ''key_points'', key_points),
          (py ''important_dates'', important_dates),
          (py ''parties'', parties),
          (py ''language'', PStr language)])"
  using summarize_try_cases [of self lib "text" language]
  by (auto simp: summarize_document_def)

lemma with_severity_filter:
  "with_severity items level = Inr kept \<Longrightarrow> kept = filter (severity_is level) items"
proof (induction items arbitrary: kept)
  case Nil then show ?case by simp
next
  case (Cons r rs)
  from Cons.prems obtain sev kept' where
    s: "py_get r (py ''severity'') PNone = Inr sev" and
    k: "with_severity rs level = Inr kept'" and
    e: "kept = (if sev = PStr level then r # kept' else kept')"
    by (auto simp: bind_eq_Inr)
  from Cons.IH [OF k] s e show ?case by (simp add: severity_is_def)
qed

lemma count_severity_Inr:
  "count_severity risks level = Inr c \<Longrightarrow>
   \<exists>items. py_iter risks = Inr items \<and> c = PInt (int (length (filter (severity_is level) items)))"
  by (auto simp: count_severity_def bind_eq_Inr dest: with_severity_filter)

lemma py_len_iter: "py_len risks = Inr n \<Longrightarrow> py_iter risks = Inr items \<Longrightarrow> length items = n"
  by (cases risks) (auto simp: py_len_def py_iter_def)

lemma detect_try_Inr:
  assumes "detect_risks_advanced_try self lib text language = Inr r"
  shows "\<exists>risks items.
     py_len risks = Inr (length items) \<and> py_iter risks = Inr items \<and>
     r = PDict
       [(py ''total_risks'', PInt (int (length items))),
        (py ''high_risk_count'', PInt (int (length (filter (severity_is (py ''High'')) items)))),
        (py ''medium_risk_count'', PInt (int (length (filter (severity_is (py ''Medium'')) items)))),
        (py ''low_risk_count'', PInt (int (length (filter (severity_is (py ''Low'')) items)))),
        (py ''risks'', risks),
        (py ''language'', PStr language)]"
proof -
  from assms obtain risks total h m l where
    len: "py_len risks = Inr total" and
    ch: "count_severity risks (py ''High'') = Inr h" and
    cm: "count_severity risks (py ''Medium'') = Inr m" and
    cl: "count_severity risks (py ''Low'') = Inr l" and
    r: "r = PDict
       [(py ''total_risks'', PInt (int total)),
        (py ''high_risk_count'', h),
        (py ''medium_risk_count'', m),
        (py ''low_risk_count'', l),
        (py ''risks'', risks),
        (py ''language'', PStr language)]"
    unfolding detect_risks_advanced_try_def bind_eq_Inr by blast
  from count_severity_Inr [OF ch] obtain items where
    it: "py_iter risks = Inr items" and
    h: "h = PInt (int (length (filter (severity_is (py ''High'')) items)))" by blast
  from count_severity_Inr [OF cm] it
  have m: "m = PInt (int (length (filter (severity_is (py ''Medium'')) items)))" by auto
  from count_severity_Inr [OF cl] it
  have l: "l = PInt (int (length (filter (severity_is (py ''Low'')) items)))" by auto
  from py_len_iter [OF len it] have "total = length items" by simp
  with len it h m l r show ?thesis by blast
qed

lemma detect_handler:
  "detect_risks_advanced_try self lib text language = Inl e \<Longrightarrow>
   detect_risks_advanced self lib text language =
     Inr (PDict
       [(py ''total_risks'', PInt 0),
        (py ''high_risk_count'', PInt 0),
        (py ''medium_risk_count'', PInt 0),
        (py ''low_risk_count'', PInt 0),
        (py ''risks'', PList []),
        (py ''language'', PStr language),
        (py ''error'', PStr (str_exn e))])"
  by (simp add: detect_risks_advanced_def)

lemma detect_success:
  "detect_risks_advanced_try self lib text language = Inr r \<Longrightarrow>
   detect_risks_advanced self lib text language = Inr r"
  by (simp add: detect_risks_advanced_def)






section \<open>The counts of the risk report\<close>

lemma severity_exclusive: "severity_is a r \<Longrightarrow> severity_is b r \<Longrightarrow> a = b"
  by (simp add: severity_is_def)

lemma three_counts_le:
  assumes "\<And>x. \<not> (P x \<and> Q x)" and "\<And>x. \<not> (P x \<and> R x)" and "\<And>x. \<not> (Q x \<and> R x)"
  shows "length (filter P xs) + length (filter Q xs) + length (filter R xs) \<le> length xs"
proof (induction xs)
  case Nil then show ?case by simp
next
  case (Cons x xs)
  with assms(1) [of x] assms(2) [of x] assms(3) [of x] show ?case by auto
qed

lemma three_counts_eq:
  assumes "\<And>x. \<not> (P x \<and> Q x)" and "\<And>x. \<not> (P x \<and> R x)" and "\<And>x. \<not> (Q x \<and> R x)"
  shows "length (filter P xs) + length (filter Q xs) + length (filter R xs) = length xs
     \<longleftrightarrow> (\<forall>x\<in>set xs. P x \<or> Q x \<or> R x)"
proof (induction xs)
  case Nil then show ?case by simp
next
  case (Cons x xs)
  from three_counts_le [of P Q R xs] assms
  have "length (filter P xs) + length (filter Q xs) + length (filter R xs) \<le> length xs" by blast
  with Cons assms(1) [of x] assms(2) [of x] assms(3) [of x] show ?case by auto
qed

lemma levels_exclusive:
  "\<not> (severity_is (py ''High'') r \<and> severity_is (py ''Medium'') r)"
  "\<not> (severity_is (py ''High'') r \<and> severity_is (py ''Low'') r)"
  "\<not> (severity_is (py ''Medium'') r \<and> severity_is (py ''Low'') r)"
  by (auto dest: severity_exclusive)

lemma detect_try_source:
  assumes "detect_risks_advanced_try self lib text language = Inr r"
  shows "\<exists>reply result risks.
     generate_content self (risk_prompt text language) = Inr reply \<and>
     parse_json_response lib reply = Inr result \<and>
     py_get result (py ''risks'') (PList []) = Inr risks \<and>
     (\<exists>total high medium low.
        r = PDict
         [(py ''total_risks'', total),
          (py ''high_risk_count'', high),
          (py ''medium_risk_count'', medium),
          (py ''low_risk_count'', low),
          (py ''risks'', risks),
          (py ''language'', PStr language)])"
  using assms unfolding detect_risks_advanced_try_def bind_eq_Inr by blast

text \<open>
  C1, as the specification states it, fails. The reply below reports one risk whose severity
  is \<^verbatim>\<open>Critical\<close>. The report has \<^verbatim>\<open>total_risks\<close> 1 and the three counts 0: they sum to 0.
\<close>

theorem counts_do_not_sum_counterexample:
  \<open>detect_risks_advanced
     (replying (py ''{"risks": [{"type": "Lock-in period", "severity": "Critical"}]}''))
     plain_lib (py ''Lease deed'') (py ''English'') =
   Inr (PDict
     [(py ''total_risks'', PInt 1),
      (py ''high_risk_count'', PInt 0),
      (py ''medium_risk_count'', PInt 0),
      (py ''low_risk_count'', PInt 0),
      (py ''risks'',
         PList [PDict [(py ''type'', PStr (py ''Lock-in period'')),
                       (py ''severity'', PStr (py ''Critical''))]]),
      (py ''language'', PStr (py ''English''))])\<close>
  by (simp add: json_eval detect_risks_advanced_def detect_risks_advanced_try_def
      count_severity_def py_len_def py_iter_def dict_get_def replying_def plain_lib_def)

text \<open>
  C1, amended. Every report that \<^verbatim>\<open>detect_risks_advanced\<close> returns has \<^verbatim>\<open>total_risks\<close> equal to
  the length of its \<^verbatim>\<open>risks\<close>, and each of the three counts equal to the number of elements of
  \<^verbatim>\<open>risks\<close> whose \<^verbatim>\<open>severity\<close> is exactly \<^verbatim>\<open>High\<close>, \<^verbatim>\<open>Medium\<close> or \<^verbatim>\<open>Low\<close>. The three counts sum
  to at most \<^verbatim>\<open>total_risks\<close>, and to \<^verbatim>\<open>total_risks\<close> exactly when every element has one of
  the three severities. On the path without an exception \<^verbatim>\<open>risks\<close> is the \<^verbatim>\<open>risks\<close> field of
  the decoded reply (the empty list when the reply has none), so the counts are computed
  from that sequence and from nothing else of the reply; on the other path \<^verbatim>\<open>risks\<close> is empty.
\<close>

theorem risk_counts:
  "\<exists>risks items extra.
     detect_risks_advanced self lib text language =
       Inr (PDict
         ([(py ''total_risks'', PInt (int (length items))),
           (py ''high_risk_count'', PInt (int (length (filter (severity_is (py ''High'')) items)))),
           (py ''medium_risk_count'', PInt (int (length (filter (severity_is (py ''Medium'')) items)))),
           (py ''low_risk_count'', PInt (int (length (filter (severity_is (py ''Low'')) items)))),
           (py ''risks'', risks),
           (py ''language'', PStr language)] @ extra))
     \<and> py_len risks = Inr (length items)
     \<and> py_iter risks = Inr items
     \<and> length (filter (severity_is (py ''High'')) items)
         + length (filter (severity_is (py ''Medium'')) items)
         + length (filter (severity_is (py ''Low'')) items) \<le> length items
     \<and> (length (filter (severity_is (py ''High'')) items)
         + length (filter (severity_is (py ''Medium'')) items)
         + length (filter (severity_is (py ''Low'')) items) = length items
        \<longleftrightarrow> (\<forall>r\<in>set items. severity_is (py ''High'') r \<or> severity_is (py ''Medium'') r \<or>
                 severity_is (py ''Low'') r))
     \<and> ((extra = [] \<and>
          (\<exists>reply result. generate_content self (risk_prompt text language) = Inr reply \<and>
             parse_json_response lib reply = Inr result \<and>
             py_get result (py ''risks'') (PList []) = Inr risks))
        \<or> (risks = PList [] \<and>
          (\<exists>e. detect_risks_advanced_try self lib text language = Inl e \<and>
             extra = [(py ''error'', PStr (str_exn e))])))"
proof (cases "detect_risks_advanced_try self lib text language")
  case (Inl e)
  show ?thesis
    unfolding detect_handler [OF Inl]
    apply (rule exI [of _ "PList []"])
    apply (rule exI [of _ "[]"])
    apply (rule exI [of _ "[(py ''error'', PStr (str_exn e))]"])
    apply (simp add: py_len_def py_iter_def Inl)
    done
next
  case (Inr r)
  from detect_try_Inr [OF Inr] obtain risks items where
    len: "py_len risks = Inr (length items)" and it: "py_iter risks = Inr items" and
    r: "r = PDict
       [(py ''total_risks'', PInt (int (length items))),
        (py ''high_risk_count'', PInt (int (length (filter (severity_is (py ''High'')) items)))),
        (py ''medium_risk_count'', PInt (int (length (filter (severity_is (py ''Medium'')) items)))),
        (py ''low_risk_count'', PInt (int (length (filter (severity_is (py ''Low'')) items)))),
        (py ''risks'', risks),
        (py ''language'', PStr language)]" by blast
  from detect_try_source [OF Inr] r
  have src: "\<exists>reply result. generate_content self (risk_prompt text language) = Inr reply \<and>
             parse_json_response lib reply = Inr result \<and>
             py_get result (py ''risks'') (PList []) = Inr risks" by auto
  note le = three_counts_le [of "severity_is (py ''High'')" "severity_is (py ''Medium'')"
      "severity_is (py ''Low'')" items, OF levels_exclusive]
  note eq = three_counts_eq [of "severity_is (py ''High'')" "severity_is (py ''Medium'')"
      "severity_is (py ''Low'')" items, OF levels_exclusive]
  show ?thesis
    unfolding detect_success [OF Inr] r
    apply (rule exI [of _ risks])
    apply (rule exI [of _ items])
    apply (rule exI [of _ "[]"])
    apply (intro conjI)
         apply simp
        apply (rule len)
       apply (rule it)
      apply (rule le)
     apply (rule eq)
    apply (rule disjI1)
    apply (rule conjI)
     apply (rule refl)
    apply (rule src)
    done
qed

theorem risk_counts_witness:
  \<open>detect_risks_advanced
     (replying (py ''{"total_risks": 9, "high_risk_count": 9, "risks": [{"type": "Penalty", "severity": "High"}, {"type": "Lock-in period", "severity": "Low"}]}''))
     plain_lib (py ''Lease deed'') (py ''English'') =
   Inr (PDict
     [(py ''total_risks'', PInt 2),
      (py ''high_risk_count'', PInt 1),
      (py ''medium_risk_count'', PInt 0),
      (py ''low_risk_count'', PInt 1),
      (py ''risks'',
         PList [PDict [(py ''type'', PStr (py ''Penalty'')), (py ''severity'', PStr (py ''High''))],
                PDict [(py ''type'', PStr (py ''Lock-in period'')),
                       (py ''severity'', PStr (py ''Low''))]]),
      (py ''language'', PStr (py ''English''))])
   \<and> length (filter (severity_is (py ''High''))
         [PDict [(py ''type'', PStr (py ''Penalty'')), (py ''severity'', PStr (py ''High''))],
          PDict [(py ''type'', PStr (py ''Lock-in period'')), (py ''severity'', PStr (py ''Low''))]])
     + length (filter (severity_is (py ''Medium''))
         [PDict [(py ''type'', PStr (py ''Penalty'')), (py ''severity'', PStr (py ''High''))],
          PDict [(py ''type'', PStr (py ''Lock-in period'')), (py ''severity'', PStr (py ''Low''))]])
     + length (filter (severity_is (py ''Low''))
         [PDict [(py ''type'', PStr (py ''Penalty'')), (py ''severity'', PStr (py ''High''))],
          PDict [(py ''type'', PStr (py ''Lock-in period'')), (py ''severity'', PStr (py ''Low''))]])
     = 2\<close>
proof -
  let ?reply = \<open>py ''{"total_risks": 9, "high_risk_count": 9, "risks": [{"type": "Penalty", "severity": "High"}, {"type": "Lock-in period", "severity": "Low"}]}''\<close>
  let ?found = \<open>[PDict [(py ''type'', PStr (py ''Penalty'')), (py ''severity'', PStr (py ''High''))],
          PDict [(py ''type'', PStr (py ''Lock-in period'')), (py ''severity'', PStr (py ''Low''))]]\<close>
  have ev: \<open>detect_risks_advanced (replying ?reply) plain_lib (py ''Lease deed'') (py ''English'') =
   Inr (PDict
     [(py ''total_risks'', PInt 2),
      (py ''high_risk_count'', PInt 1),
      (py ''medium_risk_count'', PInt 0),
      (py ''low_risk_count'', PInt 1),
      (py ''risks'', PList ?found),
      (py ''language'', PStr (py ''English''))])\<close>
    by (simp add: json_eval detect_risks_advanced_def detect_risks_advanced_try_def
        count_severity_def py_len_def py_iter_def dict_get_def replying_def plain_lib_def)
  from risk_counts [of "replying ?reply" plain_lib "py ''Lease deed''" "py ''English''"]
  obtain risks items extra where
    eq: "detect_risks_advanced (replying ?reply) plain_lib (py ''Lease deed'') (py ''English'') =
       Inr (PDict
         ([(py ''total_risks'', PInt (int (length items))),
           (py ''high_risk_count'', PInt (int (length (filter (severity_is (py ''High'')) items)))),
           (py ''medium_risk_count'', PInt (int (length (filter (severity_is (py ''Medium'')) items)))),
           (py ''low_risk_count'', PInt (int (length (filter (severity_is (py ''Low'')) items)))),
           (py ''risks'', risks),
           (py ''language'', PStr (py ''English''))] @ extra))" and
    it: "py_iter risks = Inr items" and
    iff: "length (filter (severity_is (py ''High'')) items)
         + length (filter (severity_is (py ''Medium'')) items)
         + length (filter (severity_is (py ''Low'')) items) = length items
        \<longleftrightarrow> (\<forall>r\<in>set items. severity_is (py ''High'') r \<or> severity_is (py ''Medium'') r \<or>
                 severity_is (py ''Low'') r)"
    by (elim exE conjE)
  from eq have "risks = PList ?found" unfolding ev by simp
  with it have items: "items = ?found" by (simp add: py_iter_def)
  have "\<forall>r\<in>set ?found. severity_is (py ''High'') r \<or> severity_is (py ''Medium'') r \<or>
                 severity_is (py ''Low'') r"
    by (simp add: severity_is_def dict_get_def)
  with iff items have "length (filter (severity_is (py ''High'')) ?found)
         + length (filter (severity_is (py ''Medium'')) ?found)
         + length (filter (severity_is (py ''Low'')) ?found) = length ?found" by blast
  then have "length (filter (severity_is (py ''High'')) ?found)
         + length (filter (severity_is (py ''Medium'')) ?found)
         + length (filter (severity_is (py ''Low'')) ?found) = 2" by simp
  with ev show ?thesis by (rule conjI)
qed

section \<open>The safety recommendation\<close>

text \<open>
  C2, as the specification states it, fails. The operation is called with \<^verbatim>\<open>None\<close> in the place
  of the risk report, and a client whose reply would say \<^verbatim>\<open>SAFE\<close>. The first \<^verbatim>\<open>risks.get\<close> of the
  prompt raises \<^verbatim>\<open>AttributeError\<close> inside the \<^verbatim>\<open>try\<close> block, the handler of the operation
  catches it, and the operation returns the record of a failed analysis, with the level
  \<^verbatim>\<open>WARNING\<close>: no error reaches the caller.
\<close>

theorem none_report_not_refused_counterexample:
  \<open>get_safety_recommendation (replying (py ''{"safety_level": "SAFE"}'')) plain_lib
     (py ''Lease deed'') PNone (py ''English'') =
   Inr (PDict
     [(py ''safety_level'', PStr (py ''WARNING'')),
      (py ''recommendation'',
         PStr (py ''Unable to analyze safety: '' @ quoted (py ''NoneType'') @
               py '' object has no attribute '' @ quoted (py ''get''))),
      (py ''reasons'', PList [PStr (py ''Analysis error occurred'')]),
      (py ''suggestions'', PList [PStr (py ''Please review the document manually'')]),
      (py ''language'', PStr (py ''English''))])\<close>
  by (simp add: get_safety_recommendation_def get_safety_recommendation_try_def
      safety_prompt_for_def py_get_def)

text \<open>
  C2, amended. For every client, document text and language, \<^verbatim>\<open>get_safety_recommendation\<close>
  called with \<^verbatim>\<open>None\<close> in the place of the risk report raises nothing and signals no error of
  its own kind: its \<^verbatim>\<open>try\<close> block raises the \<^verbatim>\<open>AttributeError\<close> of \<^verbatim>\<open>None.get\<close> before the client
  is called, and the operation returns the record of a failed analysis, which has the level
  \<^verbatim>\<open>WARNING\<close>, the text of that exception in \<^verbatim>\<open>recommendation\<close>, and the requested language.
\<close>

theorem safety_without_report:
  \<open>get_safety_recommendation_try self lib text PNone language =
     Inl (AttributeError
       (quoted (py ''NoneType'') @ py '' object has no attribute '' @ quoted (py ''get'')))
   \<and> get_safety_recommendation self lib text PNone language =
     Inr (PDict
       [(py ''safety_level'', PStr (py ''WARNING'')),
        (py ''recommendation'',
           PStr (py ''Unable to analyze safety: '' @ quoted (py ''NoneType'') @
                 py '' object has no attribute '' @ quoted (py ''get''))),
        (py ''reasons'', PList [PStr (py ''Analysis error occurred'')]),
        (py ''suggestions'', PList [PStr (py ''Please review the document manually'')]),
        (py ''language'', PStr language)])\<close>
  by (simp add: get_safety_recommendation_def get_safety_recommendation_try_def
      safety_prompt_for_def py_get_def)

text \<open>
  C6, as the specification states it, fails. The reply below has no \<^verbatim>\<open>safety_level\<close> and has
  a \<^verbatim>\<open>recommendation\<close>. The record returned has the level \<^verbatim>\<open>WARNING\<close>, and its recommendation
  is the text of the reply: neither the generic message nor an error message.
\<close>

theorem recommendation_of_reply_counterexample:
  \<open>get_safety_recommendation (replying (py ''{"recommendation": "Go ahead and sign."}''))
     plain_lib (py ''Lease deed'') (PDict []) (py ''English'') =
   Inr (PDict
     [(py ''safety_level'', PStr (py ''WARNING'')),
      (py ''recommendation'', PStr (py ''Go ahead and sign.'')),
      (py ''reasons'', PList []),
      (py ''suggestions'', PList []),
      (py ''language'', PStr (py ''English''))])\<close>
  by (simp add: json_eval get_safety_recommendation_def get_safety_recommendation_try_def
      safety_prompt_for_def dict_get_def replying_def plain_lib_def)

text \<open>
  C6, amended. Whenever \<^verbatim>\<open>get_safety_recommendation\<close> obtains no safety level from the reply,
  the level of the record it returns is \<^verbatim>\<open>WARNING\<close>. When its \<^verbatim>\<open>try\<close> block raises, as it does
  when the model client raises, the recommendation is \<^verbatim>\<open>Unable to analyze safety: \<close> followed by
  the text of the exception. When the decoded reply has no \<^verbatim>\<open>safety_level\<close> field, each other
  field of the record is the field of the reply if the reply has it and the default
  otherwise: the recommendation is the generic \<^verbatim>\<open>Please review the document carefully\<close> only
  when the reply has no \<^verbatim>\<open>recommendation\<close> either, as for a reply that decodes to the empty
  record.
\<close>

theorem safety_level_defaults_to_warning:
  "(get_safety_recommendation_try self lib text risks language = Inl e \<longrightarrow>
      get_safety_recommendation self lib text risks language =
        Inr (PDict
          [(py ''safety_level'', PStr (py ''WARNING'')),
           (py ''recommendation'', PStr (py ''Unable to analyze safety: '' @ str_exn e)),
           (py ''reasons'', PList [PStr (py ''Analysis error occurred'')]),
           (py ''suggestions'', PList [PStr (py ''Please review the document manually'')]),
           (py ''language'', PStr language)]))
   \<and> (safety_prompt_for lib risks language = Inr prompt \<and> generate_content self prompt = Inl e \<longrightarrow>
        get_safety_recommendation_try self lib text risks language = Inl e)
   \<and> (safety_prompt_for lib risks language = Inr prompt \<and>
        generate_content self prompt = Inr reply \<and>
        parse_json_response lib reply = Inr (PDict result) \<and>
        map_of result (py ''safety_level'') = None \<longrightarrow>
        get_safety_recommendation self lib text risks language =
          Inr (PDict
            [(py ''safety_level'', PStr (py ''WARNING'')),
             (py ''recommendation'',
                case map_of result (py ''recommendation'') of
                  Some v \<Rightarrow> v
                | None \<Rightarrow> PStr (py ''Please review the document carefully'')),
             (py ''reasons'',
                case map_of result (py ''reasons'') of Some v \<Rightarrow> v | None \<Rightarrow> PList []),
             (py ''suggestions'',
                case map_of result (py ''suggestions'') of Some v \<Rightarrow> v | None \<Rightarrow> PList []),
             (py ''language'', PStr language)]))
   \<and> (safety_prompt_for lib risks language = Inr prompt \<and>
        generate_content self prompt = Inr reply \<and>
        parse_json_response lib reply = Inr (PDict []) \<longrightarrow>
        get_safety_recommendation self lib text risks language =
          Inr (PDict
            [(py ''safety_level'', PStr (py ''WARNING'')),
             (py ''recommendation'', PStr (py ''Please review the document carefully'')),
             (py ''reasons'', PList []),
             (py ''suggestions'', PList []),
             (py ''language'', PStr language)]))"
  by (simp add: get_safety_recommendation_def get_safety_recommendation_try_def dict_get_def
      split: option.split)

theorem safety_level_defaults_to_warning_witness:
  \<open>get_safety_recommendation (failing (OtherError (py ''429 Resource exhausted''))) plain_lib
       (py ''Lease deed'') (PDict []) (py ''English'') =
     Inr (PDict
       [(py ''safety_level'', PStr (py ''WARNING'')),
        (py ''recommendation'', PStr (py ''Unable to analyze safety: 429 Resource exhausted'')),
        (py ''reasons'', PList [PStr (py ''Analysis error occurred'')]),
        (py ''suggestions'', PList [PStr (py ''Please review the document manually'')]),
        (py ''language'', PStr (py ''English''))])
   \<and> get_safety_recommendation (replying (py ''{"reasons": ["Penalty of 24% a year"]}''))
       plain_lib (py ''Lease deed'') (PDict []) (py ''English'') =
     Inr (PDict
       [(py ''safety_level'', PStr (py ''WARNING'')),
        (py ''recommendation'', PStr (py ''Please review the document carefully'')),
        (py ''reasons'', PList [PStr (py ''Penalty of 24% a year'')]),
        (py ''suggestions'', PList []),
        (py ''language'', PStr (py ''English''))])
   \<and> get_safety_recommendation (replying (py ''I cannot assess this document.''))
       plain_lib (py ''Lease deed'') (PDict []) (py ''English'') =
     Inr (PDict
       [(py ''safety_level'', PStr (py ''WARNING'')),
        (py ''recommendation'', PStr (py ''Please review the document carefully'')),
        (py ''reasons'', PList []),
        (py ''suggestions'', PList []),
        (py ''language'', PStr (py ''English''))])\<close>
proof -
  let ?e = \<open>OtherError (py ''429 Resource exhausted'')\<close>
  let ?p = "safety_prompt plain_lib (PInt 0) (PInt 0) (PInt 0) (PInt 0) (PList []) (py ''English'')"
  let ?a = \<open>py ''{"reasons": ["Penalty of 24% a year"]}''\<close>
  let ?b = \<open>py ''I cannot assess this document.''\<close>
  have sp: "safety_prompt_for plain_lib (PDict []) (py ''English'') = Inr ?p"
    by (simp add: safety_prompt_for_def dict_get_def)
  have g: "generate_content (failing ?e) ?p = Inl ?e" by (simp add: failing_def)
  have ga: "generate_content (replying ?a) ?p = Inr ?a" by (simp add: replying_def)
  have gb: "generate_content (replying ?b) ?p = Inr ?b" by (simp add: replying_def)
  have pa: \<open>parse_json_response plain_lib ?a =
      Inr (PDict [(py ''reasons'', PList [PStr (py ''Penalty of 24% a year'')])])\<close>
    by (simp add: json_eval plain_lib_def)
  have ma: \<open>map_of [(py ''reasons'', PList [PStr (py ''Penalty of 24% a year'')])]
      (py ''safety_level'') = None\<close> by simp
  have pb: "parse_json_response plain_lib ?b = Inr (PDict [])"
    by (simp add: json_eval)
  note t = safety_level_defaults_to_warning [of "failing ?e" plain_lib "py ''Lease deed''" "PDict []"
      "py ''English''" ?e ?p]
  note s = t [THEN conjunct2, THEN conjunct1, THEN mp, OF conjI [OF sp g]]
  note r1 = t [THEN conjunct1, THEN mp, OF s]
  note r2 = safety_level_defaults_to_warning [of "replying ?a" plain_lib "py ''Lease deed''" "PDict []"
      "py ''English''" _ ?p ?a \<open>[(py ''reasons'', PList [PStr (py ''Penalty of 24% a year'')])]\<close>,
      THEN conjunct2, THEN conjunct2, THEN conjunct1, THEN mp,
      OF conjI [OF sp conjI [OF ga conjI [OF pa ma]]]]
  note r3 = safety_level_defaults_to_warning [of "replying ?b" plain_lib "py ''Lease deed''" "PDict []"
      "py ''English''" _ ?p ?b,
      THEN conjunct2, THEN conjunct2, THEN conjunct2, THEN mp,
      OF conjI [OF sp conjI [OF gb pb]]]
  from r1 r2 r3 show ?thesis by simp
qed

section \<open>The fields of the summary\<close>

text \<open>
  C8, as the specification states it, fails. In the reply below \<^verbatim>\<open>key_points\<close> is a number,
  \<^verbatim>\<open>important_dates\<close> is \<^verbatim>\<open>null\<close> and \<^verbatim>\<open>parties\<close> is an object. The summary returned holds
  these three values as they are: none of them is a sequence.
\<close>

theorem reply_values_unchecked_counterexample:
  \<open>summarize_document
     (replying (py ''{"summary": "ok", "key_points": 5, "important_dates": null, "parties": {"landlord": 1}}''))
     plain_lib (py ''Lease deed'') (py ''English'') =
   Inr (PDict
     [(py ''summary'', PStr (py ''ok'')),
      (py ''key_points'', PInt 5),
      (py ''important_dates'', PNone),
      (py ''parties'', PDict [(py ''landlord'', PInt 1)]),
      (py ''language'', PStr (py ''English''))])\<close>
  by (simp add: json_eval summarize_document_def summarize_document_try_def dict_get_def
      replying_def plain_lib_def)

text \<open>
  C8, amended. \<^verbatim>\<open>summarize_document\<close> always returns a record of the five fields \<^verbatim>\<open>summary\<close>,
  \<^verbatim>\<open>key_points\<close>, \<^verbatim>\<open>important_dates\<close>, \<^verbatim>\<open>parties\<close> and \<^verbatim>\<open>language\<close>, and \<^verbatim>\<open>language\<close> is the
  requested language on both paths. When the \<^verbatim>\<open>try\<close> block raises, the three fields
  \<^verbatim>\<open>key_points\<close>, \<^verbatim>\<open>important_dates\<close> and \<^verbatim>\<open>parties\<close> are empty lists. Otherwise each of them is
  the empty list when the decoded reply has no such field, and the value the reply gives
  for it when it has, of whatever type.
\<close>

theorem summary_fields:
  "(\<exists>summary key_points important_dates parties.
      summarize_document self lib text language =
        Inr (PDict
          [(py ''summary'', summary),
           (py ''key_points'', key_points),
           (py ''important_dates'', important_dates),
           (py ''parties'', parties),
           (py ''language'', PStr language)]))
   \<and> (summarize_document_try self lib text language = Inl e \<longrightarrow>
        summarize_document self lib text language =
          Inr (PDict
            [(py ''summary'', PStr (py ''Error generating summary: '' @ str_exn e)),
             (py ''key_points'', PList []),
             (py ''important_dates'', PList []),
             (py ''parties'', PList []),
             (py ''language'', PStr language)]))
   \<and> (generate_content self (summarize_prompt text language) = Inr reply \<and>
        parse_json_response lib reply = Inr (PDict result) \<longrightarrow>
        summarize_document self lib text language =
          Inr (PDict
            [(py ''summary'',
                case map_of result (py ''summary'') of
                  Some v \<Rightarrow> v
                | None \<Rightarrow> PStr (py ''Summary not available'')),
             (py ''key_points'',
                case map_of result (py ''key_points'') of Some v \<Rightarrow> v | None \<Rightarrow> PList []),
             (py ''important_dates'',
                case map_of result (py ''important_dates'') of Some v \<Rightarrow> v | None \<Rightarrow> PList []),
             (py ''parties'',
                case map_of result (py ''parties'') of Some v \<Rightarrow> v | None \<Rightarrow> PList []),
             (py ''language'', PStr language)]))"
proof (intro conjI impI)
  show "\<exists>summary key_points important_dates parties.
      summarize_document self lib text language =
        Inr (PDict
          [(py ''summary'', summary),
           (py ''key_points'', key_points),
           (py ''important_dates'', important_dates),
           (py ''parties'', parties),
           (py ''language'', PStr language)])"
    by (rule summarize_shape)
qed (simp_all add: summarize_document_def summarize_document_try_def dict_get_def
      split: option.split)

theorem summary_fields_witness:
  \<open>summarize_document (failing (OtherError (py ''429 Resource exhausted''))) plain_lib
       (py ''Lease deed'') (py ''Tamil'') =
     Inr (PDict
       [(py ''summary'', PStr (py ''Error generating summary: 429 Resource exhausted'')),
        (py ''key_points'', PList []),
        (py ''important_dates'', PList []),
        (py ''parties'', PList []),
        (py ''language'', PStr (py ''Tamil''))])
   \<and> summarize_document (replying (py ''{"summary": "A lease.", "parties": ["Asha", "Ravi"]}''))
       plain_lib (py ''Lease deed'') (py ''Tamil'') =
     Inr (PDict
       [(py ''summary'', PStr (py ''A lease.'')),
        (py ''key_points'', PList []),
        (py ''important_dates'', PList []),
        (py ''parties'', PList [PStr (py ''Asha''), PStr (py ''Ravi'')]),
        (py ''language'', PStr (py ''Tamil''))])\<close>
proof -
  let ?e = \<open>OtherError (py ''429 Resource exhausted'')\<close>
  let ?a = \<open>py ''{"summary": "A lease.", "parties": ["Asha", "Ravi"]}''\<close>
  have s: "summarize_document_try (failing ?e) plain_lib (py ''Lease deed'') (py ''Tamil'') = Inl ?e"
    by (simp add: summarize_document_try_def failing_def)
  have ga: "generate_content (replying ?a) (summarize_prompt (py ''Lease deed'') (py ''Tamil'')) = Inr ?a"
    by (simp add: replying_def)
  have pa: \<open>parse_json_response plain_lib ?a =
      Inr (PDict [(py ''summary'', PStr (py ''A lease.'')),
                  (py ''parties'', PList [PStr (py ''Asha''), PStr (py ''Ravi'')])])\<close>
    by (simp add: json_eval plain_lib_def)
  note r1 = summary_fields [of "failing ?e" plain_lib "py ''Lease deed''" "py ''Tamil''" ?e,
      THEN conjunct2, THEN conjunct1, THEN mp, OF s]
  note r2 = summary_fields [of "replying ?a" plain_lib "py ''Lease deed''" "py ''Tamil''" _ ?a
      \<open>[(py ''summary'', PStr (py ''A lease.'')),
        (py ''parties'', PList [PStr (py ''Asha''), PStr (py ''Ravi'')])]\<close>,
      THEN conjunct2, THEN conjunct2, THEN mp, OF conjI [OF ga pa]]
  from r1 r2 show ?thesis by simp
qed

section \<open>Where a failure is recorded\<close>

text \<open>
  C10. The report of \<^verbatim>\<open>detect_risks_advanced\<close> has an \<^verbatim>\<open>error\<close> field exactly when its \<^verbatim>\<open>try\<close>
  block raised, and the field then holds the text of the exception; a reply that decodes to
  the empty record, as a reply without braces or one that \<^verbatim>\<open>json.loads\<close> rejects does, gives
  the report of six fields with no risk and no \<^verbatim>\<open>error\<close>. The record of \<^verbatim>\<open>summarize_document\<close>
  has the same five fields on both paths, and when its \<^verbatim>\<open>try\<close> block raised the text of the
  exception is in \<^verbatim>\<open>summary\<close>.
\<close>

theorem error_field_iff_raised:
  "(\<exists>report. detect_risks_advanced self lib text language = Inr (PDict report) \<and>
      (py ''error'' \<in> fst ` set report \<longleftrightarrow>
         (\<exists>x. detect_risks_advanced_try self lib text language = Inl x)))
   \<and> (detect_risks_advanced_try self lib text language = Inl e \<longrightarrow>
        detect_risks_advanced self lib text language =
          Inr (PDict
            [(py ''total_risks'', PInt 0),
             (py ''high_risk_count'', PInt 0),
             (py ''medium_risk_count'', PInt 0),
             (py ''low_risk_count'', PInt 0),
             (py ''risks'', PList []),
             (py ''language'', PStr language),
             (py ''error'', PStr (str_exn e))]))
   \<and> (generate_content self (risk_prompt text language) = Inr reply \<and>
        parse_json_response lib reply = Inr (PDict []) \<longrightarrow>
        detect_risks_advanced self lib text language =
          Inr (PDict
            [(py ''total_risks'', PInt 0),
             (py ''high_risk_count'', PInt 0),
             (py ''medium_risk_count'', PInt 0),
             (py ''low_risk_count'', PInt 0),
             (py ''risks'', PList []),
             (py ''language'', PStr language)]))
   \<and> (\<exists>summary. summarize_document self lib text language = Inr (PDict summary) \<and>
        map fst summary =
          [py ''summary'', py ''key_points'', py ''important_dates'', py ''parties'',
           py ''language''])
   \<and> (summarize_document_try self lib text language = Inl e \<longrightarrow>
        summarize_document self lib text language =
          Inr (PDict
            [(py ''summary'', PStr (py ''Error generating summary: '' @ str_exn e)),
             (py ''key_points'', PList []),
             (py ''important_dates'', PList []),
             (py ''parties'', PList []),
             (py ''language'', PStr language)]))"
proof (intro conjI impI)
  show "\<exists>report. detect_risks_advanced self lib text language = Inr (PDict report) \<and>
      (py ''error'' \<in> fst ` set report \<longleftrightarrow>
         (\<exists>x. detect_risks_advanced_try self lib text language = Inl x))"
  proof (cases "detect_risks_advanced_try self lib text language")
    case (Inl x)
    show ?thesis unfolding detect_handler [OF Inl] Inl by simp
  next
    case (Inr r)
    from detect_try_Inr [OF Inr] obtain risks items where
      r: "r = PDict
       [(py ''total_risks'', PInt (int (length items))),
        (py ''high_risk_count'', PInt (int (length (filter (severity_is (py ''High'')) items)))),
        (py ''medium_risk_count'', PInt (int (length (filter (severity_is (py ''Medium'')) items)))),
        (py ''low_risk_count'', PInt (int (length (filter (severity_is (py ''Low'')) items)))),
        (py ''risks'', risks),
        (py ''language'', PStr language)]" by blast
    show ?thesis unfolding detect_success [OF Inr] Inr r by simp
  qed
next
  assume "generate_content self (risk_prompt text language) = Inr reply \<and>
        parse_json_response lib reply = Inr (PDict [])"
  then show "detect_risks_advanced self lib text language =
          Inr (PDict
            [(py ''total_risks'', PInt 0),
             (py ''high_risk_count'', PInt 0),
             (py ''medium_risk_count'', PInt 0),
             (py ''low_risk_count'', PInt 0),
             (py ''risks'', PList []),
             (py ''language'', PStr language)])"
    by (simp add: detect_risks_advanced_def detect_risks_advanced_try_def count_severity_def
        py_len_def py_iter_def dict_get_def)
next
  from summarize_shape [of self lib "text" language]
  show "\<exists>summary. summarize_document self lib text language = Inr (PDict summary) \<and>
        map fst summary =
          [py ''summary'', py ''key_points'', py ''important_dates'', py ''parties'',
           py ''language'']"
    by auto
qed (simp_all add: summarize_document_def detect_risks_advanced_def)

theorem error_field_iff_raised_witness:
  \<open>detect_risks_advanced (failing (OtherError (py ''429 Resource exhausted''))) plain_lib
       (py ''Lease deed'') (py ''English'') =
     Inr (PDict
       [(py ''total_risks'', PInt 0),
        (py ''high_risk_count'', PInt 0),
        (py ''medium_risk_count'', PInt 0),
        (py ''low_risk_count'', PInt 0),
        (py ''risks'', PList []),
        (py ''language'', PStr (py ''English'')),
        (py ''error'', PStr (py ''429 Resource exhausted''))])
   \<and> detect_risks_advanced (replying (py ''Here you go: {"risks": oops}'')) plain_lib
       (py ''Lease deed'') (py ''English'') =
     Inr (PDict
       [(py ''total_risks'', PInt 0),
        (py ''high_risk_count'', PInt 0),
        (py ''medium_risk_count'', PInt 0),
        (py ''low_risk_count'', PInt 0),
        (py ''risks'', PList []),
        (py ''language'', PStr (py ''English''))])
   \<and> summarize_document (failing (OtherError (py ''429 Resource exhausted''))) plain_lib
       (py ''Lease deed'') (py ''English'') =
     Inr (PDict
       [(py ''summary'', PStr (py ''Error generating summary: 429 Resource exhausted'')),
        (py ''key_points'', PList []),
        (py ''important_dates'', PList []),
        (py ''parties'', PList []),
        (py ''language'', PStr (py ''English''))])\<close>
proof -
  let ?e = \<open>OtherError (py ''429 Resource exhausted'')\<close>
  let ?a = \<open>py ''Here you go: {"risks": oops}''\<close>
  have d: "detect_risks_advanced_try (failing ?e) plain_lib (py ''Lease deed'') (py ''English'') = Inl ?e"
    by (simp add: detect_risks_advanced_try_def failing_def)
  have s: "summarize_document_try (failing ?e) plain_lib (py ''Lease deed'') (py ''English'') = Inl ?e"
    by (simp add: summarize_document_try_def failing_def)
  have ga: "generate_content (replying ?a) (risk_prompt (py ''Lease deed'') (py ''English'')) = Inr ?a"
    by (simp add: replying_def)
  have pa: "parse_json_response plain_lib ?a = Inr (PDict [])"
    by (simp add: json_eval plain_lib_def)
  note t = error_field_iff_raised [of "failing ?e" plain_lib "py ''Lease deed''" "py ''English''" ?e]
  note r1 = t [THEN conjunct2, THEN conjunct1, THEN mp, OF d]
  note r2 = error_field_iff_raised [of "replying ?a" plain_lib "py ''Lease deed''" "py ''English''" _ ?a,
      THEN conjunct2, THEN conjunct2, THEN conjunct1, THEN mp, OF conjI [OF ga pa]]
  note r3 = t [THEN conjunct2, THEN conjunct2, THEN conjunct2, THEN conjunct2, THEN mp, OF s]
  from r1 r2 r3 show ?thesis by simp
qed

end
